theory Spec2Isabelle
  imports Main "HOL-Library.Sublist"
begin

section \<open>JavaScript values\<close>

text \<open>
  The script \<^verbatim>\<open>src/index.ts\<close> is sequential orchestration over the web3 library and a
  JSON-RPC node.  JavaScript strings are modelled as \<open>string\<close> (code units below 256),
  a \<^verbatim>\<open>bigint\<close> as \<open>nat\<close>, and \<^verbatim>\<open>process.env.X\<close> as \<open>string option\<close>
  (\<open>None\<close> for \<^verbatim>\<open>undefined\<close>).
\<close>

datatype error =
    Error string          \<comment> \<open>\<^verbatim>\<open>throw new Error(msg)\<close> written in the script\<close>
  | LibraryError string   \<comment> \<open>thrown inside a web3 library call, named by its class\<close>
  | RpcError string       \<comment> \<open>a rejected request to the node\<close>

definition truthy :: "string option \<Rightarrow> bool" where
  \<comment> \<open>JavaScript truthiness of \<^verbatim>\<open>string | undefined\<close>\<close>
  "truthy v = (case v of None \<Rightarrow> False | Some s \<Rightarrow> s \<noteq> [])"

definition or_empty :: "string option \<Rightarrow> string" where
  \<comment> \<open>\<^verbatim>\<open>v ? v : ""\<close>\<close>
  "or_empty v = (case v of None \<Rightarrow> [] | Some s \<Rightarrow> s)"

definition digit_char :: "nat \<Rightarrow> char" where
  "digit_char d = ''0123456789'' ! d"

function bigint_toString :: "nat \<Rightarrow> string" where
  \<comment> \<open>\<^verbatim>\<open>BigInt.prototype.toString()\<close>: decimal digits, no leading zero\<close>
  "bigint_toString n =
     (if n < 10 then [digit_char n]
      else bigint_toString (n div 10) @ [digit_char (n mod 10)])"
  by pat_completeness auto
termination
  by (relation "measure id") auto

declare bigint_toString.simps [simp del]

fun string_less :: "string \<Rightarrow> string \<Rightarrow> bool" where
  \<comment> \<open>\<^verbatim>\<open>a < b\<close> on two JavaScript strings: code units compared left to right\<close>
  "string_less [] [] = False"
| "string_less [] (y # ys) = True"
| "string_less (x # xs) [] = False"
| "string_less (x # xs) (y # ys) =
     (if (of_char x :: nat) < of_char y then True
      else if (of_char y :: nat) < of_char x then False
      else string_less xs ys)"

definition isWhiteSpace :: "char \<Rightarrow> bool" where
  "isWhiteSpace c = ((of_char c :: nat) \<in> {9, 10, 11, 12, 13, 32, 160})"

definition trim :: "string \<Rightarrow> string" where
  \<comment> \<open>\<^verbatim>\<open>String.prototype.trim()\<close>\<close>
  "trim s = rev (dropWhile isWhiteSpace (rev (dropWhile isWhiteSpace s)))"

definition toLowerCase :: "string \<Rightarrow> string" where
  \<comment> \<open>\<^verbatim>\<open>String.prototype.toLowerCase()\<close> on ASCII letters\<close>
  "toLowerCase s =
     map (\<lambda>c. case map_of (zip ''ABCDEFGHIJKLMNOPQRSTUVWXYZ'' ''abcdefghijklmnopqrstuvwxyz'') c of
                Some l \<Rightarrow> l
              | None \<Rightarrow> c) s"

definition hex_value :: "char \<Rightarrow> nat option" where
  "hex_value c =
     (let k = (of_char c :: nat) in
      if 48 \<le> k \<and> k \<le> 57 then Some (k - 48)
      else if 97 \<le> k \<and> k \<le> 102 then Some (k - 87)
      else if 65 \<le> k \<and> k \<le> 70 then Some (k - 55)
      else None)"

fun Buffer_from_hex :: "string \<Rightarrow> nat list" where
  \<comment> \<open>\<^verbatim>\<open>Buffer.from(s, "hex")\<close>: pairs of hex digits, cut at the first pair that is not hex\<close>
  "Buffer_from_hex (a # b # rest) =
     (case (hex_value a, hex_value b) of
        (Some x, Some y) \<Rightarrow> (16 * x + y) # Buffer_from_hex rest
      | _ \<Rightarrow> [])"
| "Buffer_from_hex _ = []"

subsection \<open>Unit conversion\<close>

datatype EtherUnits = Wei | Gwei | Ether

fun ethUnitMap :: "EtherUnits \<Rightarrow> nat" where
  "ethUnitMap Wei = 1"
| "ethUnitMap Gwei = 1000000000"
| "ethUnitMap Ether = 1000000000000000000"

definition parse_digits :: "string \<Rightarrow> nat" where
  \<comment> \<open>\<^verbatim>\<open>BigInt(s)\<close> on a string of decimal digits\<close>
  "parse_digits s = foldl (\<lambda>acc c. 10 * acc + ((of_char c :: nat) - 48)) 0 s"

definition padStart :: "nat \<Rightarrow> char \<Rightarrow> string \<Rightarrow> string" where
  "padStart n c s = replicate (n - length s) c @ s"

definition toWei :: "string \<Rightarrow> EtherUnits \<Rightarrow> string" where
  \<comment> \<open>Modelled from the spec: \<^verbatim>\<open>web3.utils.toWei(number, unit)\<close> belongs to the web3
      library, which is not in the repository; the spec gives its results on the script's
      arguments (0.1 units is 0.1 * 10^18, 2 units is 2 * 10^18, 1 unit is 1 * 10^18).
      The first argument is the decimal rendering \<^verbatim>\<open>String(number)\<close> of the value passed
      (the script passes the literals \<^verbatim>\<open>0.1\<close>, \<^verbatim>\<open>2\<close>, \<^verbatim>\<open>1\<close> and \<^verbatim>\<open>"1"\<close>); it is
      split at the decimal point, the joined digits are scaled by the unit, and as many
      trailing digits are dropped as the fraction had.  The result is a string, so the
      script's \<^verbatim>\<open>.toString()\<close> on it is the identity.\<close>
  "toWei number unit =
     (let denomination = ethUnitMap unit;
          integer = takeWhile (\<lambda>c. c \<noteq> CHR ''.'') number;
          fraction = drop 1 (dropWhile (\<lambda>c. c \<noteq> CHR ''.'') number);
          updatedValue = parse_digits (integer @ fraction) * denomination;
          decimals = min (length fraction) (length (bigint_toString denomination) - 1)
      in if decimals = 0 then bigint_toString updatedValue
         else (let padded = padStart decimals (CHR ''0'') (bigint_toString updatedValue)
               in take (length padded - decimals) padded))"

section \<open>Data model\<close>

record env =
  RPC_ENDPOINT :: "string option"
  ORDER_BOOK_ADDRESS :: "string option"
  MARGIN_ADDRESS :: "string option"
  PROTOCOL_VAULT_ADDRESS :: "string option"
  MAKER_ADDRESS :: "string option"
  PRIVATE_KEY :: "string option"

record MakerTransactionData =
  makerAddress :: string
  price :: string
  amount :: string
  isBuy :: bool

record Account =
  address :: string
  mnemonic :: "nat list"

datatype abi = OrderBook | Margin | ProtocolVault | ERC20

record Contract =
  jsonInterface :: abi
  options_address :: string

datatype arg = Str string | Num nat | Bool bool

datatype method_call = MethodCall string "arg list"
  \<comment> \<open>\<^verbatim>\<open>contract.methods.name(args)\<close>\<close>

record send_options =
  from_address :: string
  nonce :: string
  tx_type :: "string option"
  gas :: "string option"
  \<comment> \<open>the options object given to \<^verbatim>\<open>.send\<close>; web3 also accepts a \<^verbatim>\<open>gas\<close> entry\<close>

record receipt =
  transactionHash :: string

datatype logged = LogString string | LogReceipt receipt

subsection \<open>The two collaborators: the web3 library and the node\<close>

text \<open>
  Neither the web3 library nor the node is part of the repository; both are parameters.
  The library's pure entry points may throw on a malformed configuration value (the
  constructors of \<^verbatim>\<open>HttpProvider\<close> and \<^verbatim>\<open>Contract\<close>, and \<^verbatim>\<open>wallet.add\<close>).
  The node answers each request with a result or an error; its answer may depend on the
  request and on how many actions the process has performed so far (the first argument of
  each field of \<open>node\<close>), so a transaction count can change between two lookups.
  In \<open>library\<close>, \<open>validateClientUrl\<close> and \<open>isContractAddress\<close> say which arguments the
  two constructors accept, \<open>isAddress\<close> is the validity check of \<^verbatim>\<open>web3-validator\<close>,
  \<open>privateKeyToAddress\<close> is the address of the account that \<^verbatim>\<open>wallet.add\<close> creates, and
  \<open>encodeParameters\<close> and \<open>encodeABI\<close> are the ABI codec.
\<close>

record library =
  validateClientUrl :: "string \<Rightarrow> bool"
  isContractAddress :: "string \<Rightarrow> bool"
  isAddress :: "string \<Rightarrow> bool"
  privateKeyToAddress :: "string \<Rightarrow> error + string"
  encodeParameters :: "string list \<Rightarrow> arg list \<Rightarrow> string"
  encodeABI :: "Contract \<Rightarrow> method_call \<Rightarrow> string"

record node =
  eth_estimateGas :: "nat \<Rightarrow> Contract \<Rightarrow> method_call \<Rightarrow> string option \<Rightarrow> error + nat"
  eth_getTransactionCount :: "nat \<Rightarrow> string \<Rightarrow> error + nat"
  eth_call :: "nat \<Rightarrow> Contract \<Rightarrow> method_call \<Rightarrow> error + nat"
  eth_sendTransaction :: "nat \<Rightarrow> Contract \<Rightarrow> method_call \<Rightarrow> send_options \<Rightarrow> error + receipt"

record Web3 =
  utils :: library
  eth :: node

datatype event =
    EstimateGas Contract method_call "string option" "error + nat"
  | GetTransactionCount string "error + nat"
  | Call Contract method_call "error + nat"
  | Send Contract method_call send_options "error + receipt"
  | ConsoleLog logged

record initialized =
  the_web3 :: Web3
  the_account :: Account
  the_margin :: Contract
  the_orderBook :: Contract
  the_protocolVault :: Contract

section \<open>Effects: a log of actions, and errors as values\<close>

type_synonym 'a io = "event list \<Rightarrow> (error + 'a) \<times> event list"

definition return_io :: "'a \<Rightarrow> 'a io" where
  "return_io x h = (Inr x, h)"

definition throw :: "error \<Rightarrow> 'a io" where
  "throw e h = (Inl e, h)"

definition bind_io :: "'a io \<Rightarrow> ('a \<Rightarrow> 'b io) \<Rightarrow> 'b io" where
  \<comment> \<open>\<^verbatim>\<open>await\<close>: a rejected promise ends the enclosing function with the same error\<close>
  "bind_io m f h = (case m h of (Inl e, h') \<Rightarrow> (Inl e, h') | (Inr x, h') \<Rightarrow> f x h')"

definition estimateGas :: "Web3 \<Rightarrow> Contract \<Rightarrow> method_call \<Rightarrow> string option \<Rightarrow> nat io" where
  "estimateGas web3 c m sender h =
     (let r = eth_estimateGas (eth web3) (length h) c m sender
      in (r, h @ [EstimateGas c m sender r]))"

definition getTransactionCount :: "Web3 \<Rightarrow> string \<Rightarrow> nat io" where
  "getTransactionCount web3 a h =
     (let r = eth_getTransactionCount (eth web3) (length h) a
      in (r, h @ [GetTransactionCount a r]))"

definition call :: "Web3 \<Rightarrow> Contract \<Rightarrow> method_call \<Rightarrow> nat io" where
  "call web3 c m h =
     (let r = eth_call (eth web3) (length h) c m in (r, h @ [Call c m r]))"

definition send :: "Web3 \<Rightarrow> Contract \<Rightarrow> method_call \<Rightarrow> send_options \<Rightarrow> receipt io" where
  "send web3 c m opts h =
     (let r = eth_sendTransaction (eth web3) (length h) c m opts
      in (r, h @ [Send c m opts r]))"

definition console_log :: "logged \<Rightarrow> unit io" where
  "console_log x h = (Inr (), h @ [ConsoleLog x])"

definition new_HttpProvider :: "library \<Rightarrow> string \<Rightarrow> string io" where
  "new_HttpProvider L url =
     (if validateClientUrl L url then return_io url
      else throw (LibraryError ''InvalidClientError''))"

definition new_Contract :: "library \<Rightarrow> abi \<Rightarrow> string \<Rightarrow> Contract io" where
  "new_Contract L a addr =
     (if isContractAddress L addr
      then return_io \<lparr>jsonInterface = a, options_address = addr\<rparr>
      else throw (LibraryError ''InvalidAddressError''))"

definition wallet_add :: "library \<Rightarrow> string \<Rightarrow> string io" where
  \<comment> \<open>\<^verbatim>\<open>web3.eth.accounts.wallet.add(key)[0].address\<close>\<close>
  "wallet_add L key h = (privateKeyToAddress L key, h)"

section \<open>The script\<close>

definition initWeb3 :: "library \<Rightarrow> (string \<Rightarrow> node) \<Rightarrow> env \<Rightarrow> initialized io" where
  \<comment> \<open>\<open>network url\<close> is the node that answers at \<open>url\<close>\<close>
  "initWeb3 L network env =
     (if \<not> truthy (RPC_ENDPOINT env) then throw (Error ''Provide a valid RPC_ENDPOINT'')
      else
      bind_io (new_HttpProvider L (or_empty (RPC_ENDPOINT env))) (\<lambda>url.
      let web3 = \<lparr>utils = L, eth = network url\<rparr> in
      if \<not> truthy (ORDER_BOOK_ADDRESS env) \<or>
         \<not> truthy (MARGIN_ADDRESS env) \<or>
         \<not> truthy (PROTOCOL_VAULT_ADDRESS env)
      then throw (Error ''Please Provide Contract Address'')
      else
      bind_io (new_Contract L OrderBook (or_empty (ORDER_BOOK_ADDRESS env))) (\<lambda>orderBook.
      bind_io (new_Contract L Margin (or_empty (MARGIN_ADDRESS env))) (\<lambda>margin.
      bind_io (new_Contract L ProtocolVault (or_empty (PROTOCOL_VAULT_ADDRESS env))) (\<lambda>protocolVault.
      if \<not> truthy (MAKER_ADDRESS env) \<or> \<not> isAddress L (or_empty (MAKER_ADDRESS env))
      then throw (Error ''Please Provide Valid Maker Address '')
      else
      if \<not> truthy (PRIVATE_KEY env) then throw (Error ''Please Provide valid Private Key'')
      else
      bind_io (wallet_add L (trim (or_empty (PRIVATE_KEY env)))) (\<lambda>addedAccount.
      if addedAccount \<noteq> or_empty (MAKER_ADDRESS env)
      then throw (Error ''Invalid MNEMONIC and Maker Address differ'')
      else
      bind_io (console_log (LogString (''Added Account '' @ addedAccount))) (\<lambda>_.
      return_io
        \<lparr>the_web3 = web3,
         the_account =
           \<lparr>address = addedAccount,
            mnemonic = Buffer_from_hex (trim (or_empty (PRIVATE_KEY env)))\<rparr>,
         the_margin = margin,
         the_orderBook = orderBook,
         the_protocolVault = protocolVault\<rparr>)))))))"

definition makerTransactionData :: "Account \<Rightarrow> MakerTransactionData" where
  "makerTransactionData account =
     \<lparr>makerAddress = address account,
      price = toWei ''2'' Ether,
      amount = toWei ''0.1'' Ether,
      isBuy = True\<rparr>"

definition parameters :: "Web3 \<Rightarrow> Account \<Rightarrow> string" where
  \<comment> \<open>Maker Address / Buy Amount / Price / isBuy\<close>
  "parameters web3 account =
     encodeParameters (utils web3)
       [''address'', ''uint256'', ''uint256'', ''bool'']
       [Str (makerAddress (makerTransactionData account)),
        Str (amount (makerTransactionData account)),
        Str (price (makerTransactionData account)),
        Bool (isBuy (makerTransactionData account))]"

definition addMakerOrder :: "Web3 \<Rightarrow> Account \<Rightarrow> Contract \<Rightarrow> unit io" where
  "addMakerOrder web3 account orderBook =
     bind_io (estimateGas web3 orderBook
                (MethodCall ''addMakerOrder'' [Str (parameters web3 account)])
                (Some (address account))) (\<lambda>gasEstimate.
     if gasEstimate = 0 then throw (Error '' Estimate Gas Failed '')
     else
     let encodedParameters =
           encodeABI (utils web3) orderBook
             (MethodCall ''addMakerOrder'' [Str (parameters web3 account)]) in
     bind_io (getTransactionCount web3 (address account)) (\<lambda>count.
     bind_io (send web3 orderBook
                (MethodCall ''addMakerOrder'' [Str (parameters web3 account)])
                \<lparr>from_address = address account,
                 nonce = bigint_toString count,
                 tx_type = None,
                 gas = None\<rparr>) (\<lambda>receit.
     console_log (LogString (''Transaction Mined with Hash : '' @ transactionHash receit)))))"

definition removeMakerOrder :: "Web3 \<Rightarrow> Account \<Rightarrow> Contract \<Rightarrow> unit io" where
  "removeMakerOrder web3 account orderBook =
     (let makerOrderId = 123 in
      bind_io (estimateGas web3 orderBook (MethodCall ''removeOrder'' [Num makerOrderId]) None)
        (\<lambda>estimatedGas.
      if estimatedGas = 0 then throw (Error ''Cannot Estimate Gas'')
      else
      bind_io (getTransactionCount web3 (address account)) (\<lambda>count.
      bind_io (send web3 orderBook (MethodCall ''removeOrder'' [Num makerOrderId])
                 \<lparr>from_address = address account,
                  nonce = bigint_toString count,
                  tx_type = Some ''0x02'',
                  gas = None\<rparr>) (\<lambda>_.
      return_io ()))))"

definition depositMarginWETH :: "Web3 \<Rightarrow> Account \<Rightarrow> Contract \<Rightarrow> unit io" where
  "depositMarginWETH web3 account protocolVault =
     bind_io (estimateGas web3 protocolVault
                (MethodCall ''receiveDepositWETH'' [Str (toWei ''1'' Ether)])
                (Some (address account))) (\<lambda>estimatedGas.
     if estimatedGas = 0 then throw (Error ''Failed to Estimate Gas'')
     else
     bind_io (getTransactionCount web3 (address account)) (\<lambda>count.
     bind_io (send web3 protocolVault
                (MethodCall ''receiveDepositWETH'' [Str (toWei ''1'' Ether)])
                \<lparr>from_address = address account,
                 nonce = bigint_toString count,
                 tx_type = Some ''0x02'',
                 gas = None\<rparr>) (\<lambda>receit.
     console_log (LogReceipt receit))))"

definition tokenAddress :: string where
  "tokenAddress = ''0x000000000000000000000000000000''"

definition depositMarginOtherToken :: "Web3 \<Rightarrow> env \<Rightarrow> Account \<Rightarrow> Contract \<Rightarrow> unit io" where
  \<comment> \<open>\<open>env\<close> is \<^verbatim>\<open>process.env\<close>, which the function reads directly\<close>
  "depositMarginOtherToken web3 env account protocolVault =
     bind_io (new_Contract (utils web3) ERC20 tokenAddress) (\<lambda>erc20.
     bind_io (call web3 erc20
                (MethodCall ''allowance''
                   [Str (address account),
                    Str (or_empty (PROTOCOL_VAULT_ADDRESS env))])) (\<lambda>approval.
     bind_io
       (if string_less (bigint_toString approval) (toWei ''1'' Ether)
        then
          bind_io (getTransactionCount web3 (address account)) (\<lambda>count.
          bind_io (send web3 erc20
                     (MethodCall ''approve''
                        [Str (or_empty (PROTOCOL_VAULT_ADDRESS env)),
                         Str (toWei ''1'' Ether)])
                     \<lparr>from_address = address account,
                      nonce = bigint_toString count,
                      tx_type = Some ''0x02'',
                      gas = None\<rparr>) (\<lambda>_.
          return_io ()))
        else return_io ()) (\<lambda>_.
     bind_io (estimateGas web3 protocolVault
                (MethodCall ''receiveDepositInOtherToken''
                   [Str tokenAddress, Str (toWei ''1'' Ether)])
                None) (\<lambda>estimatedGas.
     if estimatedGas = 0 then throw (Error ''Failed to Estimate Gas'')
     else
     bind_io (getTransactionCount web3 (address account)) (\<lambda>count.
     bind_io (send web3 protocolVault
                (MethodCall ''receiveDepositInOtherToken''
                   [Str tokenAddress, Str (toWei ''1'' Ether)])
                \<lparr>from_address = address account,
                 nonce = bigint_toString count,
                 tx_type = Some ''0x02'',
                 gas = None\<rparr>) (\<lambda>_.
     return_io ()))))))"

definition withdrawMargin :: "Web3 \<Rightarrow> Account \<Rightarrow> Contract \<Rightarrow> unit io" where
  "withdrawMargin web3 account margin =
     bind_io (estimateGas web3 margin
                (MethodCall ''withdraw'' [Str (toWei ''1'' Ether)]) None) (\<lambda>estimatedGas.
     if estimatedGas = 0 then throw (Error ''Failed to Estimate Gas'')
     else
     bind_io (getTransactionCount web3 (address account)) (\<lambda>count.
     bind_io (send web3 margin
                (MethodCall ''withdraw'' [Str (toWei ''1'' Ether)])
                \<lparr>from_address = address account,
                 nonce = bigint_toString count,
                 tx_type = Some ''0x02'',
                 gas = None\<rparr>) (\<lambda>_.
     return_io ())))"

definition main :: "library \<Rightarrow> (string \<Rightarrow> node) \<Rightarrow> env \<Rightarrow> unit io" where
  "main L network env =
     bind_io (initWeb3 L network env) (\<lambda>i.
     addMakerOrder (the_web3 i) (the_account i) (the_orderBook i))"

definition script :: "library \<Rightarrow> (string \<Rightarrow> node) \<Rightarrow> env \<Rightarrow> unit io" where
  \<comment> \<open>\<^verbatim>\<open>main().then((value) => { console.log("Finished Execution ") })\<close>\<close>
  "script L network env =
     bind_io (main L network env) (\<lambda>_.
     console_log (LogString ''Finished Execution ''))"

text \<open>The five operations, for statements that range over all of them.\<close>

datatype operation =
  AddMakerOrder | RemoveMakerOrder | DepositMarginWETH | DepositMarginOtherToken | WithdrawMargin

fun run :: "operation \<Rightarrow> Web3 \<Rightarrow> env \<Rightarrow> Account \<Rightarrow> Contract \<Rightarrow> unit io" where
  "run AddMakerOrder web3 env account c = addMakerOrder web3 account c"
| "run RemoveMakerOrder web3 env account c = removeMakerOrder web3 account c"
| "run DepositMarginWETH web3 env account c = depositMarginWETH web3 account c"
| "run DepositMarginOtherToken web3 env account c = depositMarginOtherToken web3 env account c"
| "run WithdrawMargin web3 env account c = withdrawMargin web3 account c"

definition performed :: "'a io \<Rightarrow> event list \<Rightarrow> event list" where
  \<comment> \<open>the actions a computation adds to the log\<close>
  "performed m h = drop (length h) (snd (m h))"

definition outcome :: "'a io \<Rightarrow> event list \<Rightarrow> error + 'a" where
  "outcome m h = fst (m h)"

section \<open>Observations on a log\<close>

fun submitted :: "event list \<Rightarrow> (Contract \<times> method_call \<times> send_options) list" where
  \<comment> \<open>the transaction requests handed to \<^verbatim>\<open>.send\<close>, in order\<close>
  "submitted [] = []"
| "submitted (Send c m opts r # es) = (c, m, opts) # submitted es"
| "submitted (e # es) = submitted es"

fun estimated :: "event list \<Rightarrow> (Contract \<times> method_call) list" where
  \<comment> \<open>the calls handed to \<^verbatim>\<open>.estimateGas\<close>, in order\<close>
  "estimated [] = []"
| "estimated (EstimateGas c m s r # es) = (c, m) # estimated es"
| "estimated (e # es) = estimated es"

fun invoked :: "event \<Rightarrow> (Contract \<times> method_call) option" where
  \<comment> \<open>the contract method an action is about\<close>
  "invoked (EstimateGas c m s r) = Some (c, m)"
| "invoked (Call c m r) = Some (c, m)"
| "invoked (Send c m opts r) = Some (c, m)"
| "invoked (GetTransactionCount a r) = None"
| "invoked (ConsoleLog x) = None"

definition invocations :: "string \<Rightarrow> event list \<Rightarrow> (Contract \<times> arg list) list" where
  \<comment> \<open>target and arguments of every action on the contract method of the given name\<close>
  "invocations name es =
     concat (map (\<lambda>ev. case invoked ev of
                          Some (c, MethodCall n args) \<Rightarrow> if n = name then [(c, args)] else []
                        | None \<Rightarrow> []) es)"

fun nonces_fresh :: "string \<Rightarrow> event list \<Rightarrow> bool" where
  \<comment> \<open>every submission directly follows a transaction count lookup for the account, and
      carries the count that lookup returned; each lookup serves one submission\<close>
  "nonces_fresh a [] = True"
| "nonces_fresh a (GetTransactionCount a' (Inr n) # Send c m opts r # es) =
     (a' = a \<and> nonce opts = bigint_toString n \<and> nonces_fresh a es)"
| "nonces_fresh a (Send c m opts r # es) = False"
| "nonces_fresh a (e # es) = nonces_fresh a es"

datatype action = EstimateGasAction | GetTransactionCountAction | CallAction | SendAction

fun network_action :: "event \<Rightarrow> action list" where
  "network_action (EstimateGas c m s r) = [EstimateGasAction]"
| "network_action (GetTransactionCount a r) = [GetTransactionCountAction]"
| "network_action (Call c m r) = [CallAction]"
| "network_action (Send c m opts r) = [SendAction]"
| "network_action (ConsoleLog x) = []"

definition network_actions :: "event list \<Rightarrow> action list" where
  "network_actions es = concat (map network_action es)"

fun failure :: "event \<Rightarrow> error option" where
  \<comment> \<open>the error a network action was answered with, if any\<close>
  "failure (EstimateGas c m s r) = (case r of Inl e \<Rightarrow> Some e | Inr _ \<Rightarrow> None)"
| "failure (GetTransactionCount a r) = (case r of Inl e \<Rightarrow> Some e | Inr _ \<Rightarrow> None)"
| "failure (Call c m r) = (case r of Inl e \<Rightarrow> Some e | Inr _ \<Rightarrow> None)"
| "failure (Send c m opts r) = (case r of Inl e \<Rightarrow> Some e | Inr _ \<Rightarrow> None)"
| "failure (ConsoleLog x) = None"

fun plans :: "operation \<Rightarrow> action list list" where
  \<comment> \<open>the linear sequence of network steps of each operation; the allowance check of
      \<^verbatim>\<open>depositMarginOtherToken\<close> selects one of two sequences\<close>
  "plans DepositMarginOtherToken =
     [[CallAction, GetTransactionCountAction, SendAction,
       EstimateGasAction, GetTransactionCountAction, SendAction],
      [CallAction, EstimateGasAction, GetTransactionCountAction, SendAction]]"
| "plans _ = [[EstimateGasAction, GetTransactionCountAction, SendAction]]"

fun estimateGasError :: "operation \<Rightarrow> error" where
  "estimateGasError AddMakerOrder = Error '' Estimate Gas Failed ''"
| "estimateGasError RemoveMakerOrder = Error ''Cannot Estimate Gas''"
| "estimateGasError DepositMarginWETH = Error ''Failed to Estimate Gas''"
| "estimateGasError DepositMarginOtherToken = Error ''Failed to Estimate Gas''"
| "estimateGasError WithdrawMargin = Error ''Failed to Estimate Gas''"

definition configuration_error :: "error \<Rightarrow> bool" where
  \<comment> \<open>the errors that report a missing or malformed configuration value\<close>
  "configuration_error e =
     (e \<in> {Error ''Provide a valid RPC_ENDPOINT'',
            Error ''Please Provide Contract Address'',
            Error ''Please Provide Valid Maker Address '',
            Error ''Please Provide valid Private Key'',
            LibraryError ''InvalidClientError'',
            LibraryError ''InvalidAddressError''})"

definition validated :: "library \<Rightarrow> env \<Rightarrow> bool" where
  \<comment> \<open>every check of \<^verbatim>\<open>initWeb3\<close> before the key is added to the wallet passes\<close>
  "validated L env =
     (truthy (RPC_ENDPOINT env) \<and> validateClientUrl L (or_empty (RPC_ENDPOINT env)) \<and>
      truthy (ORDER_BOOK_ADDRESS env) \<and> isContractAddress L (or_empty (ORDER_BOOK_ADDRESS env)) \<and>
      truthy (MARGIN_ADDRESS env) \<and> isContractAddress L (or_empty (MARGIN_ADDRESS env)) \<and>
      truthy (PROTOCOL_VAULT_ADDRESS env) \<and>
      isContractAddress L (or_empty (PROTOCOL_VAULT_ADDRESS env)) \<and>
      truthy (MAKER_ADDRESS env) \<and> isAddress L (or_empty (MAKER_ADDRESS env)) \<and>
      truthy (PRIVATE_KEY env))"

definition well_formed_address :: "string \<Rightarrow> bool" where
  \<comment> \<open>\<^verbatim>\<open>0x\<close> followed by the 40 hexadecimal digits of 20 bytes\<close>
  "well_formed_address s =
     (take 2 s = ''0x'' \<and> length (drop 2 s) = 40 \<and> list_all (\<lambda>c. hex_value c \<noteq> None) (drop 2 s))"

subsection \<open>The shape shared by the operations\<close>

text \<open>
  Four operations are the same sequence (estimate, fail fast on zero, look the count up,
  submit, then log) with different constants; \<^verbatim>\<open>depositMarginOtherToken\<close> runs the
  allowance check first.  The two shapes below are proved equal to the operations and
  carry the proofs.
\<close>

definition log_all :: "logged list \<Rightarrow> unit io" where
  "log_all xs h = (Inr (), h @ map ConsoleLog xs)"

definition transact ::
  "Web3 \<Rightarrow> Contract \<Rightarrow> method_call \<Rightarrow> string option \<Rightarrow> error \<Rightarrow> string \<Rightarrow>
   (nat \<Rightarrow> send_options) \<Rightarrow> (receipt \<Rightarrow> logged list) \<Rightarrow> unit io" where
  "transact web3 c m sender failed a opts out =
     bind_io (estimateGas web3 c m sender) (\<lambda>g.
     if g = 0 then throw failed
     else
     bind_io (getTransactionCount web3 a) (\<lambda>count.
     bind_io (send web3 c m (opts count)) (\<lambda>r.
     log_all (out r))))"

definition approve_then ::
  "Web3 \<Rightarrow> string \<Rightarrow> method_call \<Rightarrow> (nat \<Rightarrow> bool) \<Rightarrow> string \<Rightarrow> method_call \<Rightarrow>
   (nat \<Rightarrow> send_options) \<Rightarrow> unit io \<Rightarrow> unit io" where
  "approve_then web3 token allowance below a approve opts rest =
     bind_io (new_Contract (utils web3) ERC20 token) (\<lambda>erc20.
     bind_io (call web3 erc20 allowance) (\<lambda>approval.
     bind_io
       (if below approval
        then
          bind_io (getTransactionCount web3 a) (\<lambda>count.
          bind_io (send web3 erc20 approve (opts count)) (\<lambda>_.
          return_io ()))
        else return_io ()) (\<lambda>_.
     rest)))"

definition options :: "Account \<Rightarrow> string option \<Rightarrow> nat \<Rightarrow> send_options" where
  "options account t count =
     \<lparr>from_address = address account, nonce = bigint_toString count, tx_type = t, gas = None\<rparr>"

section \<open>A reference codec and sample collaborators\<close>

definition hex_digit :: "nat \<Rightarrow> char" where
  "hex_digit d = ''0123456789abcdef'' ! d"

function hex_of_nat :: "nat \<Rightarrow> string" where
  "hex_of_nat n =
     (if n < 16 then [hex_digit n]
      else hex_of_nat (n div 16) @ [hex_digit (n mod 16)])"
  by pat_completeness auto
termination
  by (relation "measure id") auto

declare hex_of_nat.simps [simp del]

fun encodeParameter :: "string \<Rightarrow> arg \<Rightarrow> string" where
  \<comment> \<open>one 32-byte big-endian word, as 64 hexadecimal digits\<close>
  "encodeParameter t (Str s) =
     (if t = ''address'' then padStart 64 (CHR ''0'') (toLowerCase (drop 2 s))
      else if t = ''uint256'' then padStart 64 (CHR ''0'') (hex_of_nat (parse_digits s))
      else [])"
| "encodeParameter t (Bool b) =
     (if t = ''bool'' then padStart 64 (CHR ''0'') (hex_of_nat (if b then 1 else 0)) else [])"
| "encodeParameter t (Num n) =
     (if t = ''uint256'' then padStart 64 (CHR ''0'') (hex_of_nat n) else [])"

definition abi_encodeParameters :: "string list \<Rightarrow> arg list \<Rightarrow> string" where
  \<comment> \<open>Modelled from the spec: \<^verbatim>\<open>web3.eth.abi.encodeParameters\<close> belongs to the web3
      library, which is not in the repository; the spec fixes it as "parameter encoding per
      the ABI specification".  For the static types used here that is the concatenation of
      one 32-byte word per parameter.  The script itself is verified against any codec
      (the \<open>encodeParameters\<close> field); this one gives the sample library concrete bytes.\<close>
  "abi_encodeParameters types values =
     ''0x'' @ concat (map (\<lambda>(t, v). encodeParameter t v) (zip types values))"

definition sample_key :: string where
  "sample_key = ''0x0000000000000000000000000000000000000000000000000000000000000001''"

definition sample_address :: string where
  \<comment> \<open>the checksummed address of \<open>sample_key\<close>\<close>
  "sample_address = ''0x7E5F4552091A69125d5DfCb7b8C2659029395Bdf''"

definition sample_isAddress :: "string \<Rightarrow> bool" where
  \<comment> \<open>the validity check on 0x-prefixed strings: 40 hexadecimal digits, all in lower case,
      all in upper case, or in mixed case with the right checksum, which this sample knows
      for \<open>sample_address\<close> only\<close>
  "sample_isAddress s =
     (well_formed_address s \<and>
      (list_all (\<lambda>c. c \<in> set ''0123456789abcdef'') (drop 2 s) \<or>
       list_all (\<lambda>c. c \<in> set ''0123456789ABCDEF'') (drop 2 s) \<or>
       s = sample_address))"

definition sample_library :: library where
  \<comment> \<open>the library as web3 behaves on the values used below: the \<^verbatim>\<open>Contract\<close> constructor
      accepts 20-byte addresses only, and \<^verbatim>\<open>wallet.add\<close> wants the 0x-prefixed key\<close>
  "sample_library =
     \<lparr>validateClientUrl = (\<lambda>url. take 7 url = ''http://'' \<or> take 8 url = ''https://''),
      isContractAddress = well_formed_address,
      isAddress = sample_isAddress,
      privateKeyToAddress =
        (\<lambda>key. if key = sample_key then Inr sample_address
               else Inl (LibraryError ''InvalidPrivateKeyError'')),
      encodeParameters = abi_encodeParameters,
      encodeABI = (\<lambda>c m. [])\<rparr>"


definition sample_node :: "nat \<Rightarrow> nat \<Rightarrow> node" where
  \<comment> \<open>a node that reports the given allowance and gas estimate, and a transaction count
      that moves with every action\<close>
  "sample_node allowance gasEstimate =
     \<lparr>eth_estimateGas = (\<lambda>t c m s. Inr gasEstimate),
      eth_getTransactionCount = (\<lambda>t a. Inr (40 + t)),
      eth_call = (\<lambda>t c m. Inr allowance),
      eth_sendTransaction = (\<lambda>t c m opts. Inr \<lparr>transactionHash = ''0xabc''\<rparr>)\<rparr>"

definition unreachable_node :: node where
  \<comment> \<open>a node that rejects every request\<close>
  "unreachable_node =
     \<lparr>eth_estimateGas = (\<lambda>t c m s. Inl (RpcError ''ECONNREFUSED'')),
      eth_getTransactionCount = (\<lambda>t a. Inl (RpcError ''ECONNREFUSED'')),
      eth_call = (\<lambda>t c m. Inl (RpcError ''ECONNREFUSED'')),
      eth_sendTransaction = (\<lambda>t c m opts. Inl (RpcError ''ECONNREFUSED''))\<rparr>"

definition sample_web3 :: "node \<Rightarrow> Web3" where
  "sample_web3 n = \<lparr>utils = sample_library, eth = n\<rparr>"


definition sample_env :: env where
  "sample_env =
     \<lparr>RPC_ENDPOINT = Some ''http://localhost:8545'',
      ORDER_BOOK_ADDRESS = Some ''0x1111111111111111111111111111111111111111'',
      MARGIN_ADDRESS = Some ''0x2222222222222222222222222222222222222222'',
      PROTOCOL_VAULT_ADDRESS = Some ''0x3333333333333333333333333333333333333333'',
      MAKER_ADDRESS = Some sample_address,
      PRIVATE_KEY = Some sample_key\<rparr>"

definition sample_account :: Account where
  "sample_account = \<lparr>address = sample_address, mnemonic = Buffer_from_hex sample_key\<rparr>"

definition sample_orderBook :: Contract where
  "sample_orderBook =
     \<lparr>jsonInterface = OrderBook,
      options_address = ''0x1111111111111111111111111111111111111111''\<rparr>"

definition sample_vault :: Contract where
  "sample_vault =
     \<lparr>jsonInterface = ProtocolVault,
      options_address = ''0x3333333333333333333333333333333333333333''\<rparr>"

subsection \<open>The logs an operation can leave\<close>

text \<open>
  The possible outcomes and logs of the two shapes, and from them of every operation, as
  inductive predicates: one rule for each way a run can end.
\<close>

inductive transact_trace ::
  "Contract \<Rightarrow> method_call \<Rightarrow> string option \<Rightarrow> error \<Rightarrow> string \<Rightarrow> (nat \<Rightarrow> send_options) \<Rightarrow>
   (receipt \<Rightarrow> logged list) \<Rightarrow> error + unit \<Rightarrow> event list \<Rightarrow> bool"
  for c m s failed a opts out where
    estimate_failed:
      "transact_trace c m s failed a opts out (Inl e) [EstimateGas c m s (Inl e)]"
  | estimate_zero:
      "transact_trace c m s failed a opts out (Inl failed) [EstimateGas c m s (Inr 0)]"
  | count_failed:
      "g \<noteq> 0 \<Longrightarrow>
       transact_trace c m s failed a opts out (Inl e)
         [EstimateGas c m s (Inr g), GetTransactionCount a (Inl e)]"
  | send_failed:
      "g \<noteq> 0 \<Longrightarrow>
       transact_trace c m s failed a opts out (Inl e)
         [EstimateGas c m s (Inr g), GetTransactionCount a (Inr n), Send c m (opts n) (Inl e)]"
  | mined:
      "g \<noteq> 0 \<Longrightarrow>
       transact_trace c m s failed a opts out (Inr ())
         ([EstimateGas c m s (Inr g), GetTransactionCount a (Inr n), Send c m (opts n) (Inr r)]
          @ map ConsoleLog (out r))"

inductive approve_trace ::
  "bool \<Rightarrow> string \<Rightarrow> method_call \<Rightarrow> (nat \<Rightarrow> bool) \<Rightarrow> string \<Rightarrow> method_call \<Rightarrow>
   (nat \<Rightarrow> send_options) \<Rightarrow> error option \<Rightarrow> event list \<Rightarrow> bool"
  for ok t m1 below a m2 opts where
    rejected:
      "\<not> ok \<Longrightarrow>
       approve_trace ok t m1 below a m2 opts (Some (LibraryError ''InvalidAddressError'')) []"
  | allowance_failed:
      "ok \<Longrightarrow>
       approve_trace ok t m1 below a m2 opts (Some e)
         [Call \<lparr>jsonInterface = ERC20, options_address = t\<rparr> m1 (Inl e)]"
  | sufficient:
      "ok \<Longrightarrow> \<not> below v \<Longrightarrow>
       approve_trace ok t m1 below a m2 opts None
         [Call \<lparr>jsonInterface = ERC20, options_address = t\<rparr> m1 (Inr v)]"
  | lookup_failed:
      "ok \<Longrightarrow> below v \<Longrightarrow>
       approve_trace ok t m1 below a m2 opts (Some e)
         [Call \<lparr>jsonInterface = ERC20, options_address = t\<rparr> m1 (Inr v),
          GetTransactionCount a (Inl e)]"
  | approve_failed:
      "ok \<Longrightarrow> below v \<Longrightarrow>
       approve_trace ok t m1 below a m2 opts (Some e)
         [Call \<lparr>jsonInterface = ERC20, options_address = t\<rparr> m1 (Inr v),
          GetTransactionCount a (Inr n),
          Send \<lparr>jsonInterface = ERC20, options_address = t\<rparr> m2 (opts n) (Inl e)]"
  | approved:
      "ok \<Longrightarrow> below v \<Longrightarrow>
       approve_trace ok t m1 below a m2 opts None
         [Call \<lparr>jsonInterface = ERC20, options_address = t\<rparr> m1 (Inr v),
          GetTransactionCount a (Inr n),
          Send \<lparr>jsonInterface = ERC20, options_address = t\<rparr> m2 (opts n) (Inr r)]"

inductive run_trace ::
  "Web3 \<Rightarrow> env \<Rightarrow> Account \<Rightarrow> Contract \<Rightarrow> operation \<Rightarrow> error + unit \<Rightarrow> event list \<Rightarrow> bool"
  for web3 env account c where
    addMakerOrder:
      "transact_trace c (MethodCall ''addMakerOrder'' [Str (parameters web3 account)])
         (Some (address account)) (Error '' Estimate Gas Failed '') (address account)
         (options account None)
         (\<lambda>r. [LogString (''Transaction Mined with Hash : '' @ transactionHash r)]) r evs \<Longrightarrow>
       run_trace web3 env account c AddMakerOrder r evs"
  | removeMakerOrder:
      "transact_trace c (MethodCall ''removeOrder'' [Num 123]) None
         (Error ''Cannot Estimate Gas'') (address account)
         (options account (Some ''0x02'')) (\<lambda>r. []) r evs \<Longrightarrow>
       run_trace web3 env account c RemoveMakerOrder r evs"
  | depositMarginWETH:
      "transact_trace c (MethodCall ''receiveDepositWETH'' [Str (toWei ''1'' Ether)])
         (Some (address account)) (Error ''Failed to Estimate Gas'') (address account)
         (options account (Some ''0x02'')) (\<lambda>r. [LogReceipt r]) r evs \<Longrightarrow>
       run_trace web3 env account c DepositMarginWETH r evs"
  | withdrawMargin:
      "transact_trace c (MethodCall ''withdraw'' [Str (toWei ''1'' Ether)]) None
         (Error ''Failed to Estimate Gas'') (address account)
         (options account (Some ''0x02'')) (\<lambda>r. []) r evs \<Longrightarrow>
       run_trace web3 env account c WithdrawMargin r evs"
  | deposit_stopped:
      "approve_trace (isContractAddress (utils web3) tokenAddress) tokenAddress
         (MethodCall ''allowance''
            [Str (address account), Str (or_empty (PROTOCOL_VAULT_ADDRESS env))])
         (\<lambda>approval. string_less (bigint_toString approval) (toWei ''1'' Ether))
         (address account)
         (MethodCall ''approve''
            [Str (or_empty (PROTOCOL_VAULT_ADDRESS env)), Str (toWei ''1'' Ether)])
         (options account (Some ''0x02'')) (Some e) pre \<Longrightarrow>
       run_trace web3 env account c DepositMarginOtherToken (Inl e) pre"
  | deposit_continued:
      "approve_trace (isContractAddress (utils web3) tokenAddress) tokenAddress
         (MethodCall ''allowance''
            [Str (address account), Str (or_empty (PROTOCOL_VAULT_ADDRESS env))])
         (\<lambda>approval. string_less (bigint_toString approval) (toWei ''1'' Ether))
         (address account)
         (MethodCall ''approve''
            [Str (or_empty (PROTOCOL_VAULT_ADDRESS env)), Str (toWei ''1'' Ether)])
         (options account (Some ''0x02'')) None pre \<Longrightarrow>
       transact_trace c
         (MethodCall ''receiveDepositInOtherToken'' [Str tokenAddress, Str (toWei ''1'' Ether)])
         None (Error ''Failed to Estimate Gas'') (address account)
         (options account (Some ''0x02'')) (\<lambda>r. []) r tail \<Longrightarrow>
       run_trace web3 env account c DepositMarginOtherToken r (pre @ tail)"

definition with_estimate :: "nat \<Rightarrow> Web3 \<Rightarrow> Web3" where
  \<comment> \<open>the same client, on a node whose gas estimator answers \<open>g\<close>\<close>
  "with_estimate g web3 = web3\<lparr>eth := (eth web3)\<lparr>eth_estimateGas := (\<lambda>t c m s. Inr g)\<rparr>\<rparr>"

section \<open>Evaluating the constants\<close>

lemma bigint_toString_denomination:
  "bigint_toString 1000000000000000000 = ''1000000000000000000''"
  by (simp add: bigint_toString.simps digit_char_def)

lemma bigint_toString_2e18:
  "bigint_toString 2000000000000000000 = ''2000000000000000000''"
  by (simp add: bigint_toString.simps digit_char_def)

lemma bigint_toString_1e17:
  "bigint_toString 100000000000000000 = ''100000000000000000''"
  by (simp add: bigint_toString.simps digit_char_def)

lemma toWei_1: "toWei ''1'' Ether = ''1000000000000000000''"
  by (simp add: toWei_def parse_digits_def Let_def bigint_toString_denomination)

lemma toWei_2: "toWei ''2'' Ether = ''2000000000000000000''"
  by (simp add: toWei_def parse_digits_def Let_def bigint_toString_denomination
      bigint_toString_2e18)

lemma toWei_0_1: "toWei ''0.1'' Ether = ''100000000000000000''"
  by (simp add: toWei_def parse_digits_def padStart_def Let_def bigint_toString_denomination)

lemma bigint_toString_small:
  "bigint_toString 0 = ''0''" "bigint_toString 2 = ''2''"
  "bigint_toString 41 = ''41''" "bigint_toString 42 = ''42''" "bigint_toString 44 = ''44''"
  by (simp_all add: bigint_toString.simps digit_char_def)

lemmas samples = sample_web3_def sample_node_def sample_library_def sample_env_def
  sample_account_def sample_vault_def sample_orderBook_def

lemma sample_addresses:
  "well_formed_address sample_address"
  "well_formed_address ''0x7e5f4552091a69125d5dfcb7b8c2659029395bdf''"
  "well_formed_address ''0x1111111111111111111111111111111111111111''"
  "well_formed_address ''0x2222222222222222222222222222222222222222''"
  "well_formed_address ''0x3333333333333333333333333333333333333333''"
  by (simp_all add: sample_address_def well_formed_address_def hex_value_def)

lemma sample_facts:
  "trim sample_key = sample_key" "sample_key \<noteq> []" "sample_address \<noteq> []"
  "toLowerCase sample_address = ''0x7e5f4552091a69125d5dfcb7b8c2659029395bdf''"
  "sample_isAddress sample_address"
  "sample_isAddress ''0x7e5f4552091a69125d5dfcb7b8c2659029395bdf''"
  "sample_isAddress ''0x1111111111111111111111111111111111111111''"
  by (simp_all add: trim_def sample_key_def isWhiteSpace_def sample_isAddress_def
      sample_addresses toLowerCase_def) (simp_all add: sample_address_def)

text \<open>The decimal rendering of a count can be read back, so it determines the count.\<close>

lemma digit_char_value: "d < 10 \<Longrightarrow> (of_char (digit_char d) :: nat) = 48 + d"
proof -
  assume "d < 10"
  then have "d \<in> {0, 1, 2, 3, 4, 5, 6, 7, 8, 9}"
    by auto
  then show ?thesis
    by (auto simp: digit_char_def)
qed

lemma parse_digits_snoc:
  "parse_digits (s @ [c]) = 10 * parse_digits s + ((of_char c :: nat) - 48)"
  by (simp add: parse_digits_def)

lemma parse_bigint_toString: "parse_digits (bigint_toString n) = n"
proof (induction n rule: bigint_toString.induct)
  case (1 n)
  have digit: "(of_char (digit_char (n mod 10)) :: nat) - 48 = n mod 10"
    using digit_char_value [of "n mod 10"] by simp
  show ?case
  proof (cases "n < 10")
    case True
    then have "bigint_toString n = [] @ [digit_char (n mod 10)]"
      by (subst bigint_toString.simps) simp
    then have "parse_digits (bigint_toString n) = 10 * parse_digits [] + n mod 10"
      by (simp only: parse_digits_snoc digit)
    with True show ?thesis
      by (simp add: parse_digits_def)
  next
    case False
    then have "bigint_toString n = bigint_toString (n div 10) @ [digit_char (n mod 10)]"
      by (subst bigint_toString.simps) simp
    then have "parse_digits (bigint_toString n) =
        10 * parse_digits (bigint_toString (n div 10)) + n mod 10"
      by (simp only: parse_digits_snoc digit)
    also from False 1 have "parse_digits (bigint_toString (n div 10)) = n div 10"
      by simp
    finally show ?thesis
      by simp
  qed
qed

lemma bigint_toString_inj:
  assumes "bigint_toString m = bigint_toString n"
  shows "m = n"
proof -
  from assms have "parse_digits (bigint_toString m) = parse_digits (bigint_toString n)"
    by (rule arg_cong)
  then show ?thesis
    by (simp only: parse_bigint_toString)
qed

section \<open>Stepping through a computation\<close>

lemma bind_estimateGas:
  "bind_io (estimateGas web3 c m s) f h =
     (case eth_estimateGas (eth web3) (length h) c m s of
        Inl e \<Rightarrow> (Inl e, h @ [EstimateGas c m s (Inl e)])
      | Inr g \<Rightarrow> f g (h @ [EstimateGas c m s (Inr g)]))"
  by (simp add: bind_io_def estimateGas_def Let_def split: sum.splits)

lemma bind_getTransactionCount:
  "bind_io (getTransactionCount web3 a) f h =
     (case eth_getTransactionCount (eth web3) (length h) a of
        Inl e \<Rightarrow> (Inl e, h @ [GetTransactionCount a (Inl e)])
      | Inr n \<Rightarrow> f n (h @ [GetTransactionCount a (Inr n)]))"
  by (simp add: bind_io_def getTransactionCount_def Let_def split: sum.splits)

lemma bind_call:
  "bind_io (call web3 c m) f h =
     (case eth_call (eth web3) (length h) c m of
        Inl e \<Rightarrow> (Inl e, h @ [Call c m (Inl e)])
      | Inr v \<Rightarrow> f v (h @ [Call c m (Inr v)]))"
  by (simp add: bind_io_def call_def Let_def split: sum.splits)

lemma bind_send:
  "bind_io (send web3 c m opts) f h =
     (case eth_sendTransaction (eth web3) (length h) c m opts of
        Inl e \<Rightarrow> (Inl e, h @ [Send c m opts (Inl e)])
      | Inr r \<Rightarrow> f r (h @ [Send c m opts (Inr r)]))"
  by (simp add: bind_io_def send_def Let_def split: sum.splits)

lemma bind_console_log:
  "bind_io (console_log x) f h = f () (h @ [ConsoleLog x])"
  by (simp add: bind_io_def console_log_def)

lemma bind_new_Contract:
  "bind_io (new_Contract L a addr) f h =
     (if isContractAddress L addr then f \<lparr>jsonInterface = a, options_address = addr\<rparr> h
      else (Inl (LibraryError ''InvalidAddressError''), h))"
  by (simp add: bind_io_def new_Contract_def return_io_def throw_def)

lemma bind_new_HttpProvider:
  "bind_io (new_HttpProvider L url) f h =
     (if validateClientUrl L url then f url h
      else (Inl (LibraryError ''InvalidClientError''), h))"
  by (simp add: bind_io_def new_HttpProvider_def return_io_def throw_def)

lemma bind_wallet_add:
  "bind_io (wallet_add L key) f h =
     (case privateKeyToAddress L key of Inl e \<Rightarrow> (Inl e, h) | Inr a \<Rightarrow> f a h)"
  by (simp add: bind_io_def wallet_add_def split: sum.splits)

lemma bind_return: "bind_io (return_io x) f h = f x h"
  by (simp add: bind_io_def return_io_def)

lemma bind_throw: "bind_io (throw e) f h = (Inl e, h)"
  by (simp add: bind_io_def throw_def)

lemma bind_if:
  "bind_io (if b then m else m') f h = (if b then bind_io m f h else bind_io m' f h)"
  by simp

lemma if_io: "(if b then m else m') h = (if b then m h else m' (h::event list))"
  by simp

lemma bind_assoc: "bind_io (bind_io m f) g = bind_io m (\<lambda>x. bind_io (f x) g)"
  by (rule ext) (simp add: bind_io_def split: sum.splits prod.splits)

lemmas steps = bind_estimateGas bind_getTransactionCount bind_call bind_send bind_console_log
  bind_new_Contract bind_new_HttpProvider bind_wallet_add bind_return bind_throw bind_if
  bind_assoc if_io return_io_def throw_def console_log_def log_all_def

section \<open>The operations have the shared shapes\<close>

lemma console_log_log_all: "console_log x = log_all [x]"
  by (rule ext) (simp add: console_log_def log_all_def)

lemma return_log_all: "return_io () = log_all []"
  by (rule ext) (simp add: return_io_def log_all_def)

lemma addMakerOrder_shape:
  "addMakerOrder web3 account c =
     transact web3 c (MethodCall ''addMakerOrder'' [Str (parameters web3 account)])
       (Some (address account)) (Error '' Estimate Gas Failed '') (address account)
       (options account None)
       (\<lambda>r. [LogString (''Transaction Mined with Hash : '' @ transactionHash r)])"
  unfolding addMakerOrder_def transact_def options_def Let_def console_log_log_all
  by (rule refl)

lemma removeMakerOrder_shape:
  "removeMakerOrder web3 account c =
     transact web3 c (MethodCall ''removeOrder'' [Num 123]) None
       (Error ''Cannot Estimate Gas'') (address account)
       (options account (Some ''0x02'')) (\<lambda>r. [])"
  unfolding removeMakerOrder_def transact_def options_def Let_def return_log_all
  by (rule refl)

lemma depositMarginWETH_shape:
  "depositMarginWETH web3 account c =
     transact web3 c (MethodCall ''receiveDepositWETH'' [Str (toWei ''1'' Ether)])
       (Some (address account)) (Error ''Failed to Estimate Gas'') (address account)
       (options account (Some ''0x02'')) (\<lambda>r. [LogReceipt r])"
  unfolding depositMarginWETH_def transact_def options_def console_log_log_all
  by (rule refl)

lemma withdrawMargin_shape:
  "withdrawMargin web3 account c =
     transact web3 c (MethodCall ''withdraw'' [Str (toWei ''1'' Ether)]) None
       (Error ''Failed to Estimate Gas'') (address account)
       (options account (Some ''0x02'')) (\<lambda>r. [])"
  unfolding withdrawMargin_def transact_def options_def return_log_all
  by (rule refl)

lemma depositMarginOtherToken_shape:
  "depositMarginOtherToken web3 env account c =
     approve_then web3 tokenAddress
       (MethodCall ''allowance''
          [Str (address account), Str (or_empty (PROTOCOL_VAULT_ADDRESS env))])
       (\<lambda>approval. string_less (bigint_toString approval) (toWei ''1'' Ether))
       (address account)
       (MethodCall ''approve''
          [Str (or_empty (PROTOCOL_VAULT_ADDRESS env)), Str (toWei ''1'' Ether)])
       (options account (Some ''0x02''))
       (transact web3 c
          (MethodCall ''receiveDepositInOtherToken'' [Str tokenAddress, Str (toWei ''1'' Ether)])
          None (Error ''Failed to Estimate Gas'') (address account)
          (options account (Some ''0x02'')) (\<lambda>r. []))"
  unfolding depositMarginOtherToken_def approve_then_def transact_def options_def return_log_all
  by (rule refl)

lemmas shapes = addMakerOrder_shape removeMakerOrder_shape depositMarginWETH_shape
  withdrawMargin_shape depositMarginOtherToken_shape

section \<open>Every run leaves one of the logs\<close>

lemma transact_has_trace:
  "\<exists>r evs. transact web3 c m s failed a opts out h = (r, h @ evs) \<and>
           transact_trace c m s failed a opts out r evs"
proof (cases "eth_estimateGas (eth web3) (length h) c m s")
  case (Inl e)
  then show ?thesis
    by (auto simp: steps transact_def intro: transact_trace.intros)
next
  case g: (Inr g)
  show ?thesis
  proof (cases "g = 0")
    case True
    with g show ?thesis
      by (auto simp: steps transact_def intro: transact_trace.intros)
  next
    case nonzero: False
    show ?thesis
    proof (cases "eth_getTransactionCount (eth web3) (Suc (length h)) a")
      case (Inl e)
      with g nonzero show ?thesis
        by (auto simp: steps transact_def intro: transact_trace.intros)
    next
      case n: (Inr n)
      show ?thesis
      proof (cases "eth_sendTransaction (eth web3) (Suc (Suc (length h))) c m (opts n)")
        case (Inl e)
        with g nonzero n show ?thesis
          by (auto simp: steps transact_def intro: transact_trace.intros)
      next
        case (Inr r)
        with g nonzero n show ?thesis
          using transact_trace.mined [of g c m s failed a opts out n r]
          by (auto simp: steps transact_def)
      qed
    qed
  qed
qed

lemma approve_then_trace:
  "\<exists>stop pre. approve_trace (isContractAddress (utils web3) t) t m1 below a m2 opts stop pre \<and>
     (\<forall>rest. approve_then web3 t m1 below a m2 opts rest h =
       (case stop of Some e \<Rightarrow> (Inl e, h @ pre) | None \<Rightarrow> rest (h @ pre)))"
proof (cases "isContractAddress (utils web3) t")
  case False
  then have "approve_trace (isContractAddress (utils web3) t) t m1 below a m2 opts
               (Some (LibraryError ''InvalidAddressError'')) []"
    by (intro approve_trace.rejected) simp
  moreover from False have "approve_then web3 t m1 below a m2 opts rest h =
      (Inl (LibraryError ''InvalidAddressError''), h @ [])" for rest
    by (simp add: steps approve_then_def)
  ultimately show ?thesis
    by (intro exI [of _ "Some (LibraryError ''InvalidAddressError'')"] exI [of _ "[]"]) simp
next
  case ok: True
  let ?erc20 = "\<lparr>jsonInterface = ERC20, options_address = t\<rparr>"
  show ?thesis
  proof (cases "eth_call (eth web3) (length h) ?erc20 m1")
    case (Inl e)
    with ok have "approve_then web3 t m1 below a m2 opts rest h = (Inl e, h @ [Call ?erc20 m1 (Inl e)])" for rest
      by (simp add: steps approve_then_def)
    with ok show ?thesis
      by (intro exI [of _ "Some e"] exI [of _ "[Call ?erc20 m1 (Inl e)]"])
         (simp add: approve_trace.allowance_failed)
  next
    case v: (Inr v)
    show ?thesis
    proof (cases "below v")
      case False
      with ok v have "approve_then web3 t m1 below a m2 opts rest h =
          rest (h @ [Call ?erc20 m1 (Inr v)])" for rest
        by (simp add: steps approve_then_def)
      with ok False show ?thesis
        by (intro exI [of _ None] exI [of _ "[Call ?erc20 m1 (Inr v)]"])
           (simp add: approve_trace.sufficient)
    next
      case below: True
      show ?thesis
      proof (cases "eth_getTransactionCount (eth web3) (Suc (length h)) a")
        case (Inl e)
        with ok v below have "approve_then web3 t m1 below a m2 opts rest h =
            (Inl e, h @ [Call ?erc20 m1 (Inr v), GetTransactionCount a (Inl e)])" for rest
          by (simp add: steps approve_then_def)
        with ok below show ?thesis
          by (intro exI [of _ "Some e"]
                exI [of _ "[Call ?erc20 m1 (Inr v), GetTransactionCount a (Inl e)]"])
             (simp add: approve_trace.lookup_failed)
      next
        case n: (Inr n)
        show ?thesis
        proof (cases "eth_sendTransaction (eth web3) (Suc (Suc (length h))) ?erc20 m2 (opts n)")
          case (Inl e)
          with ok v below n have "approve_then web3 t m1 below a m2 opts rest h =
              (Inl e, h @ [Call ?erc20 m1 (Inr v), GetTransactionCount a (Inr n),
                           Send ?erc20 m2 (opts n) (Inl e)])" for rest
            by (simp add: steps approve_then_def)
          with ok below show ?thesis
            by (intro exI [of _ "Some e"]
                  exI [of _ "[Call ?erc20 m1 (Inr v), GetTransactionCount a (Inr n),
                              Send ?erc20 m2 (opts n) (Inl e)]"])
               (simp add: approve_trace.approve_failed)
        next
          case (Inr r)
          with ok v below n have "approve_then web3 t m1 below a m2 opts rest h =
              rest (h @ [Call ?erc20 m1 (Inr v), GetTransactionCount a (Inr n),
                         Send ?erc20 m2 (opts n) (Inr r)])" for rest
            by (simp add: steps approve_then_def)
          with ok below show ?thesis
            by (intro exI [of _ None]
                  exI [of _ "[Call ?erc20 m1 (Inr v), GetTransactionCount a (Inr n),
                              Send ?erc20 m2 (opts n) (Inr r)]"])
               (simp add: approve_trace.approved)
        qed
      qed
    qed
  qed
qed

text \<open>The log of the whole deposit: the allowance part, then the transaction part.\<close>

lemma deposit_trace:
  "\<exists>stop pre r tail.
     approve_trace (isContractAddress (utils web3) t) t m1 below a m2 opts stop pre \<and>
     transact_trace c m s failed a opts' out r tail \<and>
     approve_then web3 t m1 below a m2 opts (transact web3 c m s failed a opts' out) h =
       (case stop of Some e \<Rightarrow> (Inl e, h @ pre) | None \<Rightarrow> (r, h @ pre @ tail))"
proof -
  obtain stop pre where
    pre: "approve_trace (isContractAddress (utils web3) t) t m1 below a m2 opts stop pre"
    and eq: "approve_then web3 t m1 below a m2 opts (transact web3 c m s failed a opts' out) h =
       (case stop of Some e \<Rightarrow> (Inl e, h @ pre)
        | None \<Rightarrow> transact web3 c m s failed a opts' out (h @ pre))"
    using approve_then_trace [of web3 t m1 below a m2 opts h]
    by blast
  obtain r tail where "transact web3 c m s failed a opts' out (h @ pre) = (r, (h @ pre) @ tail)"
    and "transact_trace c m s failed a opts' out r tail"
    using transact_has_trace [of web3 c m s failed a opts' out "h @ pre"] by blast
  with pre eq show ?thesis
    by (intro exI [of _ stop] exI [of _ pre] exI [of _ r] exI [of _ tail])
       (simp split: option.splits)
qed



lemma run_has_trace:
  "\<exists>r evs. run op web3 env account c h = (r, h @ evs) \<and> run_trace web3 env account c op r evs"
proof (cases op)
  case AddMakerOrder
  obtain r evs where eq: "addMakerOrder web3 account c h = (r, h @ evs)"
    and "transact_trace c (MethodCall ''addMakerOrder'' [Str (parameters web3 account)])
           (Some (address account)) (Error '' Estimate Gas Failed '') (address account)
           (options account None)
           (\<lambda>r. [LogString (''Transaction Mined with Hash : '' @ transactionHash r)]) r evs"
    unfolding addMakerOrder_shape using transact_has_trace by blast
  then have "run_trace web3 env account c AddMakerOrder r evs"
    by (intro run_trace.addMakerOrder)
  with eq AddMakerOrder show ?thesis by auto
next
  case RemoveMakerOrder
  obtain r evs where eq: "removeMakerOrder web3 account c h = (r, h @ evs)"
    and "transact_trace c (MethodCall ''removeOrder'' [Num 123]) None
           (Error ''Cannot Estimate Gas'') (address account)
           (options account (Some ''0x02'')) (\<lambda>r. []) r evs"
    unfolding removeMakerOrder_shape using transact_has_trace by blast
  then have "run_trace web3 env account c RemoveMakerOrder r evs"
    by (intro run_trace.removeMakerOrder)
  with eq RemoveMakerOrder show ?thesis by auto
next
  case DepositMarginWETH
  obtain r evs where eq: "depositMarginWETH web3 account c h = (r, h @ evs)"
    and "transact_trace c (MethodCall ''receiveDepositWETH'' [Str (toWei ''1'' Ether)])
           (Some (address account)) (Error ''Failed to Estimate Gas'') (address account)
           (options account (Some ''0x02'')) (\<lambda>r. [LogReceipt r]) r evs"
    unfolding depositMarginWETH_shape using transact_has_trace by blast
  then have "run_trace web3 env account c DepositMarginWETH r evs"
    by (intro run_trace.depositMarginWETH)
  with eq DepositMarginWETH show ?thesis by auto
next
  case WithdrawMargin
  obtain r evs where eq: "withdrawMargin web3 account c h = (r, h @ evs)"
    and "transact_trace c (MethodCall ''withdraw'' [Str (toWei ''1'' Ether)]) None
           (Error ''Failed to Estimate Gas'') (address account)
           (options account (Some ''0x02'')) (\<lambda>r. []) r evs"
    unfolding withdrawMargin_shape using transact_has_trace by blast
  then have "run_trace web3 env account c WithdrawMargin r evs"
    by (intro run_trace.withdrawMargin)
  with eq WithdrawMargin show ?thesis by auto
next
  case DepositMarginOtherToken
  have "\<exists>r evs. depositMarginOtherToken web3 env account c h = (r, h @ evs) \<and>
          run_trace web3 env account c DepositMarginOtherToken r evs"
    unfolding depositMarginOtherToken_shape
  proof -
    let ?m1 = "MethodCall ''allowance''
                 [Str (address account), Str (or_empty (PROTOCOL_VAULT_ADDRESS env))]"
    let ?below = "\<lambda>approval. string_less (bigint_toString approval) (toWei ''1'' Ether)"
    let ?m2 = "MethodCall ''approve''
                 [Str (or_empty (PROTOCOL_VAULT_ADDRESS env)), Str (toWei ''1'' Ether)]"
    let ?m3 = "MethodCall ''receiveDepositInOtherToken''
                 [Str tokenAddress, Str (toWei ''1'' Ether)]"
    let ?opts = "options account (Some ''0x02'')"
    let ?out = "\<lambda>r::receipt. [] :: logged list"
    let ?failed = "Error ''Failed to Estimate Gas''"
    let ?flow = "approve_then web3 tokenAddress ?m1 ?below (address account) ?m2 ?opts
                   (transact web3 c ?m3 None ?failed (address account) ?opts ?out)"
    obtain stop pre r tail where
      pre: "approve_trace (isContractAddress (utils web3) tokenAddress) tokenAddress ?m1 ?below (address account) ?m2 ?opts stop pre"
      and tail: "transact_trace c ?m3 None ?failed (address account) ?opts ?out r tail"
      and eq: "?flow h = (case stop of Some e \<Rightarrow> (Inl e, h @ pre) | None \<Rightarrow> (r, h @ pre @ tail))"
      using deposit_trace [of web3 tokenAddress ?m1 ?below "address account" ?m2 ?opts c ?m3 None
          ?failed ?opts ?out h]
      by blast
    show "\<exists>r evs. ?flow h = (r, h @ evs) \<and>
            run_trace web3 env account c DepositMarginOtherToken r evs"
    proof (cases stop)
      case None
      with pre tail have "run_trace web3 env account c DepositMarginOtherToken r (pre @ tail)"
        by (intro run_trace.deposit_continued) simp_all
      with None eq show ?thesis by auto
    next
      case (Some e)
      with pre have "run_trace web3 env account c DepositMarginOtherToken (Inl e) pre"
        by (intro run_trace.deposit_stopped) simp
      with Some eq show ?thesis by auto
    qed
  qed
  with DepositMarginOtherToken show ?thesis by simp
qed

section \<open>Nonces\<close>

lemma nonce_options: "nonce (options account t count) = bigint_toString count"
  by (simp add: options_def)

lemma nonces_fresh_logs [simp]: "nonces_fresh a (map ConsoleLog xs)"
  by (induction xs) simp_all

lemma transact_nonces_fresh:
  assumes "\<And>count. nonce (opts count) = bigint_toString count"
  shows "nonces_fresh a (performed (transact web3 c m s failed a opts out) h)"
  using assms by (simp add: steps performed_def transact_def split: sum.split)

lemma approve_then_nonces_fresh:
  assumes "\<And>count. nonce (opts count) = bigint_toString count"
      and "\<And>count. nonce (opts' count) = bigint_toString count"
  shows "nonces_fresh a
           (performed (approve_then web3 t m1 below a m2 opts
                         (transact web3 c m s failed a opts' out)) h)"
  using assms
  by (simp add: steps performed_def transact_def approve_then_def split: sum.split)


text \<open>
  Claim C3.  Every transaction submitted by any of the five operations directly follows a
  transaction count lookup for the signing account, and its nonce is the decimal rendering
  of the count that this lookup returned; consecutive lookup/submission pairs do not
  overlap, so no lookup result serves two submissions and no nonce comes from an earlier
  lookup.
\<close>

theorem nonce_fetched_before_each_submission:
  "nonces_fresh (address account) (performed (run op web3 env account c) h)"
  by (cases op)
     (simp_all add: shapes transact_nonces_fresh approve_then_nonces_fresh nonce_options)

text \<open>A withdrawal: the count 41 is looked up, and the submission carries it.\<close>

theorem nonce_fetched_before_each_submission_witness:
  "performed (run WithdrawMargin (sample_web3 (sample_node 0 21000)) sample_env
                sample_account sample_vault) [] =
     [EstimateGas sample_vault (MethodCall ''withdraw'' [Str ''1000000000000000000''])
        None (Inr 21000),
      GetTransactionCount sample_address (Inr 41),
      Send sample_vault (MethodCall ''withdraw'' [Str ''1000000000000000000''])
        \<lparr>from_address = sample_address, nonce = ''41'', tx_type = Some ''0x02'', gas = None\<rparr>
        (Inr \<lparr>transactionHash = ''0xabc''\<rparr>)] \<and>
   nonces_fresh sample_address
     (performed (run WithdrawMargin (sample_web3 (sample_node 0 21000)) sample_env
                   sample_account sample_vault) [])"
proof -
  have "address sample_account = sample_address"
    by (simp add: sample_account_def)
  with nonce_fetched_before_each_submission
    [of sample_account WithdrawMargin "sample_web3 (sample_node 0 21000)" sample_env
      sample_vault "[]"]
  have "nonces_fresh sample_address
     (performed (run WithdrawMargin (sample_web3 (sample_node 0 21000)) sample_env
                   sample_account sample_vault) [])"
    by simp
  then show ?thesis
    by (simp add: withdrawMargin_def steps performed_def sample_web3_def sample_node_def
        sample_account_def toWei_1 bigint_toString_small del: nonces_fresh.simps)
qed

section \<open>The allowance check\<close>


text \<open>
  A library that rejects the token literal ends the operation before any action.
\<close>

lemma depositMarginOtherToken_rejected:
  assumes "\<not> isContractAddress (utils web3) tokenAddress"
  shows "depositMarginOtherToken web3 env account c h =
           (Inl (LibraryError ''InvalidAddressError''), h)"
  using assms by (simp add: depositMarginOtherToken_shape approve_then_def steps)

lemma sample_rejects_tokenAddress:
  "\<not> isContractAddress (utils (sample_web3 n)) tokenAddress"
  by (simp add: sample_web3_def sample_library_def well_formed_address_def tokenAddress_def)

section \<open>Gas estimation as a gate\<close>

lemma run_traceE:
  obtains r evs where "outcome (run op web3 env account c) h = r"
    and "performed (run op web3 env account c) h = evs"
    and "run_trace web3 env account c op r evs"
  using run_has_trace [of op web3 env account c h]
  by (auto simp: outcome_def performed_def)

lemma not_estimate_log [simp]: "EstimateGas c m s r \<notin> ConsoleLog ` X"
  by auto

lemma submitted_logs [simp]: "submitted (map ConsoleLog xs) = []"
  by (induction xs) simp_all

lemma submitted_append [simp]: "submitted (xs @ ys) = submitted xs @ submitted ys"
  by (induction xs rule: submitted.induct) simp_all

lemma transact_zero_estimate:
  assumes "transact_trace c m s failed a opts out r evs"
      and "EstimateGas c' m' s' (Inr 0) \<in> set evs"
  shows "r = Inl failed \<and> last evs = EstimateGas c' m' s' (Inr 0) \<and> submitted evs = []"
  using assms by cases auto

lemma run_trace_zero_estimate:
  assumes "run_trace web3 env account c op r evs"
      and "EstimateGas c' m' s' (Inr 0) \<in> set evs"
  shows "r = Inl (estimateGasError op) \<and> last evs = EstimateGas c' m' s' (Inr 0) \<and>
         (submitted evs = [] \<or>
          op = DepositMarginOtherToken \<and>
          (\<exists>n. submitted evs =
                 [(\<lparr>jsonInterface = ERC20, options_address = tokenAddress\<rparr>,
                   MethodCall ''approve''
                     [Str (or_empty (PROTOCOL_VAULT_ADDRESS env)), Str (toWei ''1'' Ether)],
                   options account (Some ''0x02'') n)]))"
  using assms(1)
proof cases
  case addMakerOrder
  from transact_zero_estimate [OF addMakerOrder(2)] assms(2) addMakerOrder(1)
  show ?thesis by simp
next
  case removeMakerOrder
  from transact_zero_estimate [OF removeMakerOrder(2)] assms(2) removeMakerOrder(1)
  show ?thesis by simp
next
  case depositMarginWETH
  from transact_zero_estimate [OF depositMarginWETH(2)] assms(2) depositMarginWETH(1)
  show ?thesis by simp
next
  case withdrawMargin
  from transact_zero_estimate [OF withdrawMargin(2)] assms(2) withdrawMargin(1)
  show ?thesis by simp
next
  case (deposit_stopped e)
  from deposit_stopped(3) assms(2) show ?thesis
    by cases auto
next
  case (deposit_continued pre tail)
  from deposit_continued(3) show ?thesis
  proof cases
    case (sufficient v)
    with assms(2) deposit_continued(2) have "EstimateGas c' m' s' (Inr 0) \<in> set tail"
      by auto
    from transact_zero_estimate [OF deposit_continued(4) this] sufficient deposit_continued(1,2)
    show ?thesis
      using deposit_continued(4) by (auto elim: transact_trace.cases)
  next
    case (approved v n r')
    with assms(2) deposit_continued(2) have "EstimateGas c' m' s' (Inr 0) \<in> set tail"
      by auto
    from transact_zero_estimate [OF deposit_continued(4) this] approved deposit_continued(1,2)
    show ?thesis
      using deposit_continued(4) by (auto elim: transact_trace.cases)
  qed
qed

text \<open>
  When the gas estimation step of an operation returns zero, the operation throws its
  gas-estimation error at once: the estimate is the last action of the operation and
  nothing is submitted after it.  The only submission that can precede an estimation
  step is the approval in \<^verbatim>\<open>depositMarginOtherToken\<close>.
\<close>

lemma zero_estimate_is_last:
  assumes "EstimateGas c' m' s' (Inr 0) \<in> set (performed (run op web3 env account c) h)"
  shows "outcome (run op web3 env account c) h = Inl (estimateGasError op) \<and>
         last (performed (run op web3 env account c) h) = EstimateGas c' m' s' (Inr 0) \<and>
         (submitted (performed (run op web3 env account c) h) = [] \<or>
          op = DepositMarginOtherToken \<and>
          (\<exists>n. submitted (performed (run op web3 env account c) h) =
                 [(\<lparr>jsonInterface = ERC20, options_address = tokenAddress\<rparr>,
                   MethodCall ''approve''
                     [Str (or_empty (PROTOCOL_VAULT_ADDRESS env)), Str (toWei ''1'' Ether)],
                   options account (Some ''0x02'') n)]))"
proof -
  obtain r evs where "outcome (run op web3 env account c) h = r"
    and "performed (run op web3 env account c) h = evs"
    and "run_trace web3 env account c op r evs"
    by (rule run_traceE)
  with assms run_trace_zero_estimate [of web3 env account c op r evs c' m' s'] show ?thesis
    by simp
qed

lemma depositMarginOtherToken_rejected_log:
  assumes "\<not> isContractAddress (utils web3) tokenAddress"
  shows "performed (run DepositMarginOtherToken web3 env account c) h = []"
  using depositMarginOtherToken_rejected [OF assms, of env account c h]
  by (simp add: performed_def)

text \<open>
  Claim C2.  The library's contract constructor rejects the token literal of
  \<^verbatim>\<open>depositMarginOtherToken\<close>, which has 30 hexadecimal digits where an address has 40.
  Then for each of the five operations: when its gas estimation step returns zero, the
  operation throws its gas-estimation error, the estimate is its last action, and the
  operation has submitted no transaction.  (\<^verbatim>\<open>depositMarginOtherToken\<close> then stops at
  the constructor, before its estimation step.)
\<close>

theorem zero_estimate_submits_nothing:
  assumes "\<not> isContractAddress (utils web3) tokenAddress"
      and "EstimateGas c' m' s' (Inr 0) \<in> set (performed (run op web3 env account c) h)"
  shows "outcome (run op web3 env account c) h = Inl (estimateGasError op) \<and>
         last (performed (run op web3 env account c) h) = EstimateGas c' m' s' (Inr 0) \<and>
         submitted (performed (run op web3 env account c) h) = []"
proof -
  from assms(2) depositMarginOtherToken_rejected_log [OF assms(1), of env account c h]
  have "op \<noteq> DepositMarginOtherToken"
    by auto
  with zero_estimate_is_last [OF assms(2)] show ?thesis
    by blast
qed

text \<open>The theorem at a node whose estimator answers zero.\<close>

theorem zero_estimate_submits_nothing_witness:
  "\<not> isContractAddress (utils (sample_web3 (sample_node 0 0))) tokenAddress \<and>
   EstimateGas sample_vault (MethodCall ''withdraw'' [Str (toWei ''1'' Ether)]) None (Inr 0)
     \<in> set (performed (run WithdrawMargin (sample_web3 (sample_node 0 0)) sample_env
                         sample_account sample_vault) []) \<and>
   outcome (run WithdrawMargin (sample_web3 (sample_node 0 0)) sample_env
              sample_account sample_vault) [] = Inl (Error ''Failed to Estimate Gas'') \<and>
   submitted (performed (run WithdrawMargin (sample_web3 (sample_node 0 0)) sample_env
                sample_account sample_vault) []) = []"
proof -
  have zero: "EstimateGas sample_vault (MethodCall ''withdraw'' [Str (toWei ''1'' Ether)]) None (Inr 0)
     \<in> set (performed (run WithdrawMargin (sample_web3 (sample_node 0 0)) sample_env
                         sample_account sample_vault) [])"
    by (simp add: withdrawMargin_def steps performed_def sample_web3_def sample_node_def)
  from zero sample_rejects_tokenAddress [of "sample_node 0 0"]
    zero_estimate_submits_nothing [OF sample_rejects_tokenAddress zero]
  show ?thesis
    by simp
qed

section \<open>Linear sequences\<close>

lemma network_actions_append [simp]:
  "network_actions (xs @ ys) = network_actions xs @ network_actions ys"
  by (simp add: network_actions_def)

lemma network_actions_Cons [simp]:
  "network_actions (x # xs) = network_action x @ network_actions xs"
  by (simp add: network_actions_def)

lemma network_actions_Nil [simp]: "network_actions [] = []"
  by (simp add: network_actions_def)

lemma network_actions_logs [simp]: "network_actions (map ConsoleLog xs) = []"
  by (induction xs) simp_all

lemma failure_logs [simp]: "ev \<in> ConsoleLog ` X \<Longrightarrow> failure ev = None"
  by auto

lemma transact_linear:
  assumes "transact_trace c m s failed a opts out r evs"
  shows "prefix (network_actions evs) [EstimateGasAction, GetTransactionCountAction, SendAction]"
    and "ev \<in> set evs \<Longrightarrow> failure ev = Some e \<Longrightarrow> r = Inl e \<and> last evs = ev"
    and "evs \<noteq> []"
  using assms by (cases; auto)+

lemma run_trace_linear:
  assumes "run_trace web3 env account c op r evs"
  shows "\<exists>p\<in>set (plans op). prefix (network_actions evs) p"
    and "ev \<in> set evs \<Longrightarrow> failure ev = Some e \<Longrightarrow> r = Inl e \<and> last evs = ev"
  using assms
proof -
  show "\<exists>p\<in>set (plans op). prefix (network_actions evs) p"
    using assms
  proof cases
    case (deposit_stopped e)
    from deposit_stopped(3) deposit_stopped(1) show ?thesis
      by cases auto
  next
    case (deposit_continued pre tail)
    from deposit_continued(3) transact_linear(1) [OF deposit_continued(4)] deposit_continued(1,2)
    show ?thesis
      by cases auto
  qed (use transact_linear(1) in auto)
  show "r = Inl e \<and> last evs = ev" if "ev \<in> set evs" "failure ev = Some e"
    using assms
  proof cases
    case (deposit_stopped e')
    from deposit_stopped(3) that deposit_stopped(2) show ?thesis
      by cases auto
  next
    case (deposit_continued pre tail)
    from deposit_continued(3) that deposit_continued(2)
      transact_linear(2) [OF deposit_continued(4), of ev e] transact_linear(3) [OF deposit_continued(4)]
    show ?thesis
      by cases auto
  qed (use that transact_linear(2) in auto)
qed

section \<open>Initialisation and the whole script\<close>

lemma initWeb3_unfolded:
  "initWeb3 L network env h =
     (if \<not> truthy (RPC_ENDPOINT env) then (Inl (Error ''Provide a valid RPC_ENDPOINT''), h)
      else if \<not> validateClientUrl L (or_empty (RPC_ENDPOINT env))
      then (Inl (LibraryError ''InvalidClientError''), h)
      else if \<not> truthy (ORDER_BOOK_ADDRESS env) \<or> \<not> truthy (MARGIN_ADDRESS env) \<or>
              \<not> truthy (PROTOCOL_VAULT_ADDRESS env)
      then (Inl (Error ''Please Provide Contract Address''), h)
      else if \<not> isContractAddress L (or_empty (ORDER_BOOK_ADDRESS env)) \<or>
              \<not> isContractAddress L (or_empty (MARGIN_ADDRESS env)) \<or>
              \<not> isContractAddress L (or_empty (PROTOCOL_VAULT_ADDRESS env))
      then (Inl (LibraryError ''InvalidAddressError''), h)
      else if \<not> truthy (MAKER_ADDRESS env) \<or> \<not> isAddress L (or_empty (MAKER_ADDRESS env))
      then (Inl (Error ''Please Provide Valid Maker Address ''), h)
      else if \<not> truthy (PRIVATE_KEY env)
      then (Inl (Error ''Please Provide valid Private Key''), h)
      else
        (case privateKeyToAddress L (trim (or_empty (PRIVATE_KEY env))) of
           Inl e \<Rightarrow> (Inl e, h)
         | Inr addedAccount \<Rightarrow>
             if addedAccount \<noteq> or_empty (MAKER_ADDRESS env)
             then (Inl (Error ''Invalid MNEMONIC and Maker Address differ''), h)
             else
               (Inr \<lparr>the_web3 = \<lparr>utils = L, eth = network (or_empty (RPC_ENDPOINT env))\<rparr>,
                     the_account =
                       \<lparr>address = addedAccount,
                        mnemonic = Buffer_from_hex (trim (or_empty (PRIVATE_KEY env)))\<rparr>,
                     the_margin =
                       \<lparr>jsonInterface = Margin,
                        options_address = or_empty (MARGIN_ADDRESS env)\<rparr>,
                     the_orderBook =
                       \<lparr>jsonInterface = OrderBook,
                        options_address = or_empty (ORDER_BOOK_ADDRESS env)\<rparr>,
                     the_protocolVault =
                       \<lparr>jsonInterface = ProtocolVault,
                        options_address = or_empty (PROTOCOL_VAULT_ADDRESS env)\<rparr>\<rparr>,
                h @ [ConsoleLog (LogString (''Added Account '' @ addedAccount))])))"
  unfolding initWeb3_def Let_def
  by (simp add: steps split: sum.splits)

lemma initWeb3_log:
  "(\<exists>e. initWeb3 L network env h = (Inl e, h)) \<or>
   (\<exists>i x. initWeb3 L network env h = (Inr i, h @ [ConsoleLog x]))"
  by (simp add: initWeb3_unfolded split: sum.splits)

lemma script_unfolded:
  "script L network env h =
     (case initWeb3 L network env h of
        (Inl e, h') \<Rightarrow> (Inl e, h')
      | (Inr i, h') \<Rightarrow>
          (case run AddMakerOrder (the_web3 i) env (the_account i) (the_orderBook i) h' of
             (Inl e, h'') \<Rightarrow> (Inl e, h'')
           | (Inr u, h'') \<Rightarrow> (Inr (), h'' @ [ConsoleLog (LogString ''Finished Execution '')])))"
  by (simp add: script_def main_def bind_io_def console_log_def split: sum.splits prod.splits)

lemma script_failure:
  assumes "ev \<in> set (performed (script L network env) h)" and "failure ev = Some e"
  shows "outcome (script L network env) h = Inl e \<and> last (performed (script L network env) h) = ev"
proof -
  consider e' where "initWeb3 L network env h = (Inl e', h)"
    | i x where "initWeb3 L network env h = (Inr i, h @ [ConsoleLog x])"
    using initWeb3_log by blast
  then show ?thesis
  proof cases
    case 1
    with assms show ?thesis
      by (simp add: script_unfolded performed_def)
  next
    case 2
    obtain r evs where
      run: "run AddMakerOrder (the_web3 i) env (the_account i) (the_orderBook i) (h @ [ConsoleLog x])
              = (r, (h @ [ConsoleLog x]) @ evs)"
      and trace: "run_trace (the_web3 i) env (the_account i) (the_orderBook i) AddMakerOrder r evs"
      using run_has_trace by blast
    show ?thesis
    proof (cases r)
      case (Inl e')
      with 2 run have log: "performed (script L network env) h = ConsoleLog x # evs"
        and out: "outcome (script L network env) h = Inl e'"
        by (simp_all add: script_unfolded performed_def outcome_def)
      with assms have "ev \<in> set evs" by auto
      from run_trace_linear(2) [OF trace this assms(2)] Inl log out show ?thesis
        using \<open>ev \<in> set evs\<close> by auto
    next
      case (Inr u)
      with 2 run have log: "performed (script L network env) h =
          ConsoleLog x # evs @ [ConsoleLog (LogString ''Finished Execution '')]"
        by (simp add: script_unfolded performed_def)
      with assms have "ev \<in> set evs" by auto
      from run_trace_linear(2) [OF trace this assms(2)] Inr show ?thesis by simp
    qed
  qed
qed

text \<open>
  Claim C7.  The network actions of every operation are an initial segment of the
  operation's linear sequence of steps, so no step is taken twice; a network action that is
  answered with an error is the last action of the operation, and the operation ends with
  that error.  The same holds for the whole script: the error ends the process, and
  nothing is logged after the failed action.
\<close>

theorem no_network_action_is_retried:
  "(\<exists>p\<in>set (plans op). prefix (network_actions (performed (run op web3 env account c) h)) p) \<and>
   (\<forall>ev\<in>set (performed (run op web3 env account c) h). \<forall>e. failure ev = Some e \<longrightarrow>
      outcome (run op web3 env account c) h = Inl e \<and>
      last (performed (run op web3 env account c) h) = ev) \<and>
   (\<forall>ev\<in>set (performed (script L network env') h'). \<forall>e. failure ev = Some e \<longrightarrow>
      outcome (script L network env') h' = Inl e \<and>
      last (performed (script L network env') h') = ev)"
proof -
  obtain r evs where "outcome (run op web3 env account c) h = r"
    and "performed (run op web3 env account c) h = evs"
    and "run_trace web3 env account c op r evs"
    by (rule run_traceE)
  then show ?thesis
    using run_trace_linear [of web3 env account c op r evs] script_failure [of _ L network env' h']
    by auto
qed

text \<open>The script against a node that refuses every request.\<close>

theorem no_network_action_is_retried_witness:
  "EstimateGas sample_orderBook
     (MethodCall ''addMakerOrder'' [Str (parameters (sample_web3 unreachable_node) sample_account)])
     (Some sample_address) (Inl (RpcError ''ECONNREFUSED''))
     \<in> set (performed (script sample_library (\<lambda>url. unreachable_node) sample_env) []) \<and>
   outcome (script sample_library (\<lambda>url. unreachable_node) sample_env) [] =
     Inl (RpcError ''ECONNREFUSED'') \<and>
   last (performed (script sample_library (\<lambda>url. unreachable_node) sample_env) []) =
     EstimateGas sample_orderBook
       (MethodCall ''addMakerOrder'' [Str (parameters (sample_web3 unreachable_node) sample_account)])
       (Some sample_address) (Inl (RpcError ''ECONNREFUSED'')) \<and>
   network_actions (performed (run AddMakerOrder (sample_web3 unreachable_node) sample_env
                                 sample_account sample_orderBook) []) = [EstimateGasAction]"
proof -
  let ?ev = "EstimateGas sample_orderBook
     (MethodCall ''addMakerOrder'' [Str (parameters (sample_web3 unreachable_node) sample_account)])
     (Some sample_address) (Inl (RpcError ''ECONNREFUSED''))"
  have log: "performed (script sample_library (\<lambda>url. unreachable_node) sample_env) [] =
      [ConsoleLog (LogString (''Added Account '' @ sample_address)), ?ev]"
    by (simp add: script_unfolded initWeb3_unfolded addMakerOrder_def steps performed_def
        sample_library_def sample_env_def sample_web3_def sample_account_def sample_orderBook_def
        unreachable_node_def truthy_def or_empty_def sample_facts sample_addresses)
  have ops: "network_actions (performed (run AddMakerOrder (sample_web3 unreachable_node) sample_env
                                 sample_account sample_orderBook) []) = [EstimateGasAction]"
    by (simp add: addMakerOrder_def steps performed_def sample_web3_def unreachable_node_def)
  have "?ev \<in> set (performed (script sample_library (\<lambda>url. unreachable_node) sample_env) [])"
    by (simp add: log)
  moreover have "failure ?ev = Some (RpcError ''ECONNREFUSED'')"
    by simp
  ultimately show ?thesis
    using no_network_action_is_retried
      [of AddMakerOrder "sample_web3 unreachable_node" sample_env sample_account
        sample_orderBook "[]" sample_library "\<lambda>url. unreachable_node" sample_env "[]"] ops
    by blast
qed

section \<open>Configuration\<close>

lemma toLowerCase_idem: "toLowerCase (toLowerCase s) = toLowerCase s"
  by (induction s) (simp_all add: toLowerCase_def)

lemma configuration_errors:
  "configuration_error (Error ''Provide a valid RPC_ENDPOINT'')"
  "configuration_error (Error ''Please Provide Contract Address'')"
  "configuration_error (Error ''Please Provide Valid Maker Address '')"
  "configuration_error (Error ''Please Provide valid Private Key'')"
  "configuration_error (LibraryError ''InvalidClientError'')"
  "configuration_error (LibraryError ''InvalidAddressError'')"
  by (simp_all add: configuration_error_def)

lemma script_stops_with_initWeb3:
  "initWeb3 L network env h = (Inl e, h') \<Longrightarrow> script L network env h = (Inl e, h')"
  by (simp add: script_unfolded)

text \<open>
  Claim C5.  When any of the six required variables is absent, \<^verbatim>\<open>initWeb3\<close> throws a
  configuration error and leaves the log as it was: no network call (indeed no action at
  all) precedes the error, and the script ends with it.  The error is one of the four
  messages of the script, or the library's own complaint about a malformed endpoint or
  contract address met before the missing variable is looked at.
\<close>

theorem missing_variable_is_a_configuration_error:
  assumes "RPC_ENDPOINT env = None \<or> ORDER_BOOK_ADDRESS env = None \<or>
           MARGIN_ADDRESS env = None \<or> PROTOCOL_VAULT_ADDRESS env = None \<or>
           MAKER_ADDRESS env = None \<or> PRIVATE_KEY env = None"
  shows "\<exists>e. configuration_error e \<and> initWeb3 L network env h = (Inl e, h) \<and>
             script L network env h = (Inl e, h)"
proof -
  from assms have "\<exists>e. configuration_error e \<and> initWeb3 L network env h = (Inl e, h)"
    unfolding initWeb3_unfolded
    by (auto simp: configuration_errors truthy_def)
  then show ?thesis
    using script_stops_with_initWeb3 by blast
qed


text \<open>
  The theorem on an environment without \<^verbatim>\<open>MAKER_ADDRESS\<close>.
\<close>

theorem missing_variable_is_a_configuration_error_witness:
  "MAKER_ADDRESS (sample_env\<lparr>MAKER_ADDRESS := None\<rparr>) = None \<and>
   initWeb3 sample_library (\<lambda>url. sample_node 0 21000) (sample_env\<lparr>MAKER_ADDRESS := None\<rparr>) [] =
     (Inl (Error ''Please Provide Valid Maker Address ''), []) \<and>
   (\<exists>e. configuration_error e \<and>
        script sample_library (\<lambda>url. sample_node 0 21000) (sample_env\<lparr>MAKER_ADDRESS := None\<rparr>) [] =
          (Inl e, []))"
proof -
  have absent: "MAKER_ADDRESS (sample_env\<lparr>MAKER_ADDRESS := None\<rparr>) = None"
    by simp
  have "initWeb3 sample_library (\<lambda>url. sample_node 0 21000) (sample_env\<lparr>MAKER_ADDRESS := None\<rparr>) [] =
     (Inl (Error ''Please Provide Valid Maker Address ''), [])"
    by (simp add: initWeb3_unfolded sample_library_def sample_env_def truthy_def or_empty_def
        sample_addresses)
  with absent show ?thesis
    using missing_variable_is_a_configuration_error
      [of "sample_env\<lparr>MAKER_ADDRESS := None\<rparr>" sample_library "\<lambda>url. sample_node 0 21000" "[]"]
    by auto
qed

lemma validated_sample:
  "validated sample_library (sample_env\<lparr>MAKER_ADDRESS := Some m\<rparr>) =
     (m \<noteq> [] \<and> sample_isAddress m)"
  by (simp add: validated_def sample_library_def sample_env_def truthy_def or_empty_def
      sample_facts sample_addresses)

lemma derived_sample:
  "privateKeyToAddress sample_library
     (trim (or_empty (PRIVATE_KEY (sample_env\<lparr>MAKER_ADDRESS := m\<rparr>)))) = Inr sample_address"
  by (simp add: sample_library_def sample_env_def or_empty_def sample_facts)

text \<open>
  Claim C6.  When the address derived from the private key differs from the configured
  maker address, \<^verbatim>\<open>initWeb3\<close> returns no initialized client; whenever the run reaches the
  derivation (every earlier check passes), the error is the mismatch error.
\<close>

theorem key_mismatch_is_fatal:
  assumes "privateKeyToAddress L (trim (or_empty (PRIVATE_KEY env))) = Inr a"
      and "a \<noteq> or_empty (MAKER_ADDRESS env)"
  shows "(\<exists>e. initWeb3 L network env h = (Inl e, h)) \<and>
         (validated L env \<longrightarrow>
            initWeb3 L network env h =
              (Inl (Error ''Invalid MNEMONIC and Maker Address differ''), h))"
  using assms by (simp add: initWeb3_unfolded validated_def)

text \<open>
  Claim C8.  The comparison of the derived address with \<^verbatim>\<open>MAKER_ADDRESS\<close> is equality
  of strings.  Take a derived address \<open>a\<close> that has an upper-case letter, and configure its
  lower-case spelling, which denotes the same account (the two agree up to letter case) and
  passes the validity check: \<^verbatim>\<open>initWeb3\<close> throws the mismatch error, although it accepts
  the spelling \<open>a\<close> itself.
\<close>

theorem maker_address_compared_as_string:
  assumes "privateKeyToAddress L (trim (or_empty (PRIVATE_KEY env))) = Inr a"
      and "toLowerCase a \<noteq> a"
      and "validated L (env\<lparr>MAKER_ADDRESS := Some (toLowerCase a)\<rparr>)"
  shows "toLowerCase (toLowerCase a) = toLowerCase a \<and>
         initWeb3 L network (env\<lparr>MAKER_ADDRESS := Some (toLowerCase a)\<rparr>) h =
           (Inl (Error ''Invalid MNEMONIC and Maker Address differ''), h) \<and>
         (isAddress L a \<longrightarrow>
            (\<exists>i. outcome (initWeb3 L network (env\<lparr>MAKER_ADDRESS := Some a\<rparr>)) h = Inr i \<and>
                 address (the_account i) = a))"
proof -
  from assms(2) have "a \<noteq> []"
    by (auto simp: toLowerCase_def)
  with assms show ?thesis
    by (simp add: initWeb3_unfolded validated_def toLowerCase_idem outcome_def truthy_def
        or_empty_def)
qed


text \<open>
  The theorem for a well-formed maker address that is not the one the key derives.
\<close>

theorem key_mismatch_is_fatal_witness:
  "privateKeyToAddress sample_library
     (trim (or_empty (PRIVATE_KEY
        (sample_env\<lparr>MAKER_ADDRESS := Some ''0x1111111111111111111111111111111111111111''\<rparr>)))) =
     Inr sample_address \<and>
   sample_address \<noteq>
     or_empty (MAKER_ADDRESS
       (sample_env\<lparr>MAKER_ADDRESS := Some ''0x1111111111111111111111111111111111111111''\<rparr>)) \<and>
   validated sample_library
     (sample_env\<lparr>MAKER_ADDRESS := Some ''0x1111111111111111111111111111111111111111''\<rparr>) \<and>
   initWeb3 sample_library (\<lambda>url. sample_node 0 21000)
     (sample_env\<lparr>MAKER_ADDRESS := Some ''0x1111111111111111111111111111111111111111''\<rparr>) [] =
     (Inl (Error ''Invalid MNEMONIC and Maker Address differ''), [])"
proof -
  let ?env = "sample_env\<lparr>MAKER_ADDRESS := Some ''0x1111111111111111111111111111111111111111''\<rparr>"
  have differ: "sample_address \<noteq> or_empty (MAKER_ADDRESS ?env)"
    by (simp add: or_empty_def sample_address_def)
  have valid: "validated sample_library ?env"
    by (simp add: validated_sample sample_facts)
  from key_mismatch_is_fatal [OF derived_sample differ, of "\<lambda>url. sample_node 0 21000" "[]"]
    derived_sample [of "Some ''0x1111111111111111111111111111111111111111''"] differ valid
  show ?thesis by simp
qed

text \<open>
  The theorem for the key 1, whose checksummed address has upper-case letters.
\<close>

theorem maker_address_compared_as_string_witness:
  "privateKeyToAddress sample_library (trim (or_empty (PRIVATE_KEY sample_env))) =
     Inr sample_address \<and>
   toLowerCase sample_address = ''0x7e5f4552091a69125d5dfcb7b8c2659029395bdf'' \<and>
   toLowerCase sample_address \<noteq> sample_address \<and>
   isAddress sample_library (toLowerCase sample_address) \<and>
   initWeb3 sample_library (\<lambda>url. sample_node 0 21000)
     (sample_env\<lparr>MAKER_ADDRESS := Some ''0x7e5f4552091a69125d5dfcb7b8c2659029395bdf''\<rparr>) [] =
     (Inl (Error ''Invalid MNEMONIC and Maker Address differ''), []) \<and>
   (\<exists>i. outcome (initWeb3 sample_library (\<lambda>url. sample_node 0 21000)
                 (sample_env\<lparr>MAKER_ADDRESS := Some sample_address\<rparr>)) [] = Inr i \<and>
        address (the_account i) = sample_address)"
proof -
  have derived: "privateKeyToAddress sample_library (trim (or_empty (PRIVATE_KEY sample_env))) =
      Inr sample_address"
    using derived_sample [of "MAKER_ADDRESS sample_env"] by simp
  have cased: "toLowerCase sample_address \<noteq> sample_address"
    by (simp add: sample_facts) (simp add: sample_address_def)
  have valid: "validated sample_library (sample_env\<lparr>MAKER_ADDRESS := Some (toLowerCase sample_address)\<rparr>)"
    by (simp add: validated_sample sample_facts)
  have accepted: "isAddress sample_library sample_address"
    "isAddress sample_library (toLowerCase sample_address)"
    by (simp_all add: sample_library_def sample_facts)
  from maker_address_compared_as_string [OF derived cased valid, of "\<lambda>url. sample_node 0 21000" "[]"]
    derived cased accepted
  show ?thesis by (simp add: sample_facts)
qed

section \<open>The maker order\<close>

lemma estimated_logs [simp]: "estimated (map ConsoleLog xs) = []"
  by (induction xs) simp_all

lemma estimated_append [simp]: "estimated (xs @ ys) = estimated xs @ estimated ys"
  by (induction xs rule: estimated.induct) simp_all

lemma transact_trace_calls:
  assumes "transact_trace c m s failed a opts out r evs"
  shows "estimated evs = [(c, m)]"
    and "set (map (\<lambda>(c, m, opts). (c, m)) (submitted evs)) \<subseteq> {(c, m)}"
  using assms by (cases; simp)+

lemma parameters_value:
  "parameters web3 account =
     encodeParameters (utils web3) [''address'', ''uint256'', ''uint256'', ''bool'']
       [Str (address account), Str (bigint_toString (10 ^ 18 div 10)),
        Str (bigint_toString (2 * 10 ^ 18)), Bool True]"
  by (simp add: parameters_def makerTransactionData_def toWei_0_1 toWei_2
      bigint_toString_1e17 bigint_toString_2e18)

lemma addMakerOrder_mined:
  assumes "eth_estimateGas (eth web3) (length h) orderBook
             (MethodCall ''addMakerOrder'' [Str (parameters web3 account)])
             (Some (address account)) = Inr g"
      and "g \<noteq> 0"
      and "eth_getTransactionCount (eth web3) (Suc (length h)) (address account) = Inr n"
  shows "submitted (performed (addMakerOrder web3 account orderBook) h) =
           [(orderBook, MethodCall ''addMakerOrder'' [Str (parameters web3 account)],
             options account None n)]"
  using assms
  by (simp add: addMakerOrder_shape transact_def steps performed_def split: sum.splits)

text \<open>
  Claim C4.  The parameter blob of \<^verbatim>\<open>addMakerOrder\<close> is what the ABI codec returns for
  the types (address, uint256, uint256, bool) and the values (the account's address,
  0.1 * 10^18, 2 * 10^18, true), in this order.  The one gas estimation of the operation is
  for \<^verbatim>\<open>addMakerOrder\<close> with the blob as its only argument, every submission is for the
  same call, and when the estimate is non-zero and the count lookup succeeds exactly that
  call is submitted.
\<close>

theorem addMakerOrder_parameter_blob:
  "parameters web3 account =
     encodeParameters (utils web3) [''address'', ''uint256'', ''uint256'', ''bool'']
       [Str (address account), Str (bigint_toString (10 ^ 18 div 10)),
        Str (bigint_toString (2 * 10 ^ 18)), Bool True] \<and>
   estimated (performed (addMakerOrder web3 account orderBook) h) =
     [(orderBook, MethodCall ''addMakerOrder'' [Str (parameters web3 account)])] \<and>
   set (map (\<lambda>(c, m, opts). (c, m))
          (submitted (performed (addMakerOrder web3 account orderBook) h)))
     \<subseteq> {(orderBook, MethodCall ''addMakerOrder'' [Str (parameters web3 account)])} \<and>
   (\<forall>g n. eth_estimateGas (eth web3) (length h) orderBook
              (MethodCall ''addMakerOrder'' [Str (parameters web3 account)])
              (Some (address account)) = Inr g \<and>
          g \<noteq> 0 \<and>
          eth_getTransactionCount (eth web3) (Suc (length h)) (address account) = Inr n \<longrightarrow>
          submitted (performed (addMakerOrder web3 account orderBook) h) =
            [(orderBook, MethodCall ''addMakerOrder'' [Str (parameters web3 account)],
              options account None n)])"
proof -
  obtain r evs where log: "performed (run AddMakerOrder web3 sample_env account orderBook) h = evs"
    and trace: "run_trace web3 sample_env account orderBook AddMakerOrder r evs"
    by (rule run_traceE)
  from trace have "transact_trace orderBook
         (MethodCall ''addMakerOrder'' [Str (parameters web3 account)])
         (Some (address account)) (Error '' Estimate Gas Failed '') (address account)
         (options account None)
         (\<lambda>r. [LogString (''Transaction Mined with Hash : '' @ transactionHash r)]) r evs"
    by cases simp_all
  from transact_trace_calls [OF this] log show ?thesis
    using parameters_value [of web3 account] addMakerOrder_mined [of web3 h orderBook account]
    by simp
qed

lemma hex_values:
  "hex_of_nat (Suc 0) = ''1''"
  "hex_of_nat 100000000000000000 = ''16345785d8a0000''"
  "hex_of_nat 2000000000000000000 = ''1bc16d674ec80000''"
  by (simp_all add: hex_of_nat.simps hex_digit_def)

lemma parse_values:
  "parse_digits ''100000000000000000'' = 100000000000000000"
  "parse_digits ''2000000000000000000'' = 2000000000000000000"
  by (simp_all add: parse_digits_def)

lemma replicate_numeral: "replicate (numeral k) x = x # replicate (pred_numeral k) x"
  by (simp add: numeral_eq_Suc)

lemma sample_parameters:
  "parameters (sample_web3 n) sample_account =
     ''0x0000000000000000000000007e5f4552091a69125d5dfcb7b8c2659029395bdf'' @
     ''000000000000000000000000000000000000000000000000016345785d8a0000'' @
     ''0000000000000000000000000000000000000000000000001bc16d674ec80000'' @
     ''0000000000000000000000000000000000000000000000000000000000000001''"
  by (simp add: parameters_value sample_web3_def sample_library_def sample_account_def
      abi_encodeParameters_def bigint_toString_1e17 bigint_toString_2e18 hex_values parse_values
      padStart_def toLowerCase_def sample_address_def replicate_numeral)


text \<open>
  With the reference codec the blob is four 32-byte words: the address, 0.1 * 10^18
  (hexadecimal 16345785d8a0000), 2 * 10^18 (hexadecimal 1bc16d674ec80000) and 1.
\<close>

theorem addMakerOrder_parameter_blob_witness:
  "parameters (sample_web3 (sample_node 0 21000)) sample_account =
     ''0x0000000000000000000000007e5f4552091a69125d5dfcb7b8c2659029395bdf'' @
     ''000000000000000000000000000000000000000000000000016345785d8a0000'' @
     ''0000000000000000000000000000000000000000000000001bc16d674ec80000'' @
     ''0000000000000000000000000000000000000000000000000000000000000001'' \<and>
   submitted (performed (addMakerOrder (sample_web3 (sample_node 0 21000)) sample_account
                sample_orderBook) []) =
     [(sample_orderBook,
       MethodCall ''addMakerOrder'' [Str (parameters (sample_web3 (sample_node 0 21000)) sample_account)],
       \<lparr>from_address = sample_address, nonce = ''41'', tx_type = None, gas = None\<rparr>)]"
proof -
  let ?web3 = "sample_web3 (sample_node 0 21000)"
  have estimate: "eth_estimateGas (eth ?web3) (length []) sample_orderBook
        (MethodCall ''addMakerOrder'' [Str (parameters ?web3 sample_account)])
        (Some (address sample_account)) = Inr 21000"
    and count: "eth_getTransactionCount (eth ?web3) (Suc (length [])) (address sample_account) = Inr 41"
    by (simp_all add: sample_web3_def sample_node_def)
  have "submitted (performed (addMakerOrder ?web3 sample_account sample_orderBook) []) =
      [(sample_orderBook, MethodCall ''addMakerOrder'' [Str (parameters ?web3 sample_account)],
        options sample_account None 41)]"
    by (rule addMakerOrder_parameter_blob [of ?web3 sample_account sample_orderBook "[]",
          THEN conjunct2, THEN conjunct2, THEN conjunct2, rule_format, of 21000 41])
       (use estimate count in simp)
  moreover have "options sample_account None 41 =
      \<lparr>from_address = sample_address, nonce = ''41'', tx_type = None, gas = None\<rparr>"
    by (simp add: options_def sample_account_def bigint_toString_small)
  ultimately show ?thesis
    using sample_parameters [of "sample_node 0 21000"] by (simp only: simp_thms)
qed

section \<open>What the gas estimate is used for\<close>

lemma with_estimate_simps:
  "utils (with_estimate g web3) = utils web3"
  "getTransactionCount (with_estimate g web3) = getTransactionCount web3"
  "call (with_estimate g web3) = call web3"
  "send (with_estimate g web3) = send web3"
  "estimateGas (with_estimate g web3) c m s h = (Inr g, h @ [EstimateGas c m s (Inr g)])"
  "parameters (with_estimate g web3) account = parameters web3 account"
  by (auto simp: with_estimate_def getTransactionCount_def call_def send_def estimateGas_def
      parameters_def fun_eq_iff Let_def)

lemma transact_with_estimate:
  "g \<noteq> 0 \<Longrightarrow>
   transact (with_estimate g web3) c m s failed a opts out h =
     bind_io (getTransactionCount web3 a) (\<lambda>count.
     bind_io (send web3 c m (opts count)) (\<lambda>r. log_all (out r)))
       (h @ [EstimateGas c m s (Inr g)])"
  by (simp add: transact_def bind_io_def with_estimate_simps)

lemma transact_with_estimate_result:
  "\<exists>r subs. \<forall>g. g \<noteq> 0 \<longrightarrow>
     (\<exists>evs. transact (with_estimate g web3) c m s failed a opts out h = (r, h @ evs) \<and>
            submitted evs = subs)"
proof (cases "eth_getTransactionCount (eth web3) (Suc (length h)) a")
  case (Inl e)
  then show ?thesis
    by (intro exI [of _ "Inl e"] exI [of _ "[]"]) (simp add: transact_with_estimate steps)
next
  case n: (Inr n)
  show ?thesis
  proof (cases "eth_sendTransaction (eth web3) (Suc (Suc (length h))) c m (opts n)")
    case (Inl e)
    with n show ?thesis
      by (intro exI [of _ "Inl e"] exI [of _ "[(c, m, opts n)]"])
         (simp add: transact_with_estimate steps)
  next
    case (Inr r)
    with n show ?thesis
      by (intro exI [of _ "Inr ()"] exI [of _ "[(c, m, opts n)]"])
         (simp add: transact_with_estimate steps)
  qed
qed

lemma deposit_with_estimate_result:
  "\<exists>r subs. \<forall>g. g \<noteq> 0 \<longrightarrow>
     (\<exists>evs. approve_then (with_estimate g web3) t m1 below a m2 opts
              (transact (with_estimate g web3) c m s failed a opts' out) h = (r, h @ evs) \<and>
            submitted evs = subs)"
proof -
  obtain stop pre where
    eq: "\<And>rest. approve_then web3 t m1 below a m2 opts rest h =
           (case stop of Some e \<Rightarrow> (Inl e, h @ pre) | None \<Rightarrow> rest (h @ pre))"
    using approve_then_trace [of web3 t m1 below a m2 opts h] by blast
  have same: "approve_then (with_estimate g web3) t m1 below a m2 opts rest =
      approve_then web3 t m1 below a m2 opts rest" for g rest
    unfolding approve_then_def with_estimate_simps by (rule refl)
  show ?thesis
  proof (cases stop)
    case (Some e)
    then show ?thesis
      by (intro exI [of _ "Inl e"] exI [of _ "submitted pre"]) (simp add: same eq)
  next
    case None
    obtain r subs where tail: "\<And>g. g \<noteq> 0 \<Longrightarrow>
        \<exists>evs. transact (with_estimate g web3) c m s failed a opts' out (h @ pre) =
                 (r, (h @ pre) @ evs) \<and> submitted evs = subs"
      using transact_with_estimate_result [of web3 c m s failed a opts' out "h @ pre"] by blast
    show ?thesis
    proof (intro exI [of _ r] exI [of _ "submitted pre @ subs"] allI impI)
      fix g :: nat
      assume "g \<noteq> 0"
      then obtain evs where
        "transact (with_estimate g web3) c m s failed a opts' out (h @ pre) = (r, (h @ pre) @ evs)"
        and "submitted evs = subs"
        using tail by blast
      with None show "\<exists>evs. approve_then (with_estimate g web3) t m1 below a m2 opts
              (transact (with_estimate g web3) c m s failed a opts' out) h = (r, h @ evs) \<and>
            submitted evs = submitted pre @ subs"
        by (intro exI [of _ "pre @ evs"]) (simp add: same eq)
    qed
  qed
qed

lemma run_with_estimate_result:
  "\<exists>r subs. \<forall>g. g \<noteq> 0 \<longrightarrow>
     (\<exists>evs. run op (with_estimate g web3) env account c h = (r, h @ evs) \<and>
            submitted evs = subs)"
proof (cases op)
  case AddMakerOrder
  then show ?thesis
    unfolding AddMakerOrder run.simps addMakerOrder_shape with_estimate_simps
    by (intro transact_with_estimate_result)
next
  case RemoveMakerOrder
  then show ?thesis
    unfolding RemoveMakerOrder run.simps removeMakerOrder_shape
    by (intro transact_with_estimate_result)
next
  case DepositMarginWETH
  then show ?thesis
    unfolding DepositMarginWETH run.simps depositMarginWETH_shape
    by (intro transact_with_estimate_result)
next
  case WithdrawMargin
  then show ?thesis
    unfolding WithdrawMargin run.simps withdrawMargin_shape
    by (intro transact_with_estimate_result)
next
  case DepositMarginOtherToken
  then show ?thesis
    unfolding DepositMarginOtherToken run.simps depositMarginOtherToken_shape
    by (intro deposit_with_estimate_result)
qed

lemma transact_trace_no_gas:
  assumes "transact_trace c m s failed a (options account t) out r evs"
  shows "list_all (\<lambda>(c, m, opts). gas opts = None) (submitted evs)"
  using assms by cases (simp_all add: options_def)

lemma run_trace_no_gas:
  assumes "run_trace web3 env account c op r evs"
  shows "list_all (\<lambda>(c, m, opts). gas opts = None) (submitted evs)"
  using assms
proof cases
  case addMakerOrder
  from addMakerOrder(2) show ?thesis by (rule transact_trace_no_gas)
next
  case removeMakerOrder
  from removeMakerOrder(2) show ?thesis by (rule transact_trace_no_gas)
next
  case depositMarginWETH
  from depositMarginWETH(2) show ?thesis by (rule transact_trace_no_gas)
next
  case withdrawMargin
  from withdrawMargin(2) show ?thesis by (rule transact_trace_no_gas)
next
  case (deposit_stopped e)
  from deposit_stopped(3) show ?thesis
    by cases (simp_all add: options_def)
next
  case (deposit_continued pre tail)
  from deposit_continued(3) transact_trace_no_gas [OF deposit_continued(4)] deposit_continued(2)
  show ?thesis
    by cases (simp_all add: options_def)
qed

text \<open>
  Claim C9.  The gas estimate only passes the fail-fast check.  For any two non-zero
  estimates and otherwise the same client, environment, account, contract and history,
  every operation submits the same transaction requests and ends the same way; and no
  submitted request of any run carries a gas entry.
\<close>

theorem gas_estimate_only_gates:
  assumes "g1 \<noteq> 0" and "g2 \<noteq> 0"
  shows "submitted (performed (run op (with_estimate g1 web3) env account c) h) =
           submitted (performed (run op (with_estimate g2 web3) env account c) h) \<and>
         outcome (run op (with_estimate g1 web3) env account c) h =
           outcome (run op (with_estimate g2 web3) env account c) h \<and>
         list_all (\<lambda>(c, m, opts). gas opts = None)
           (submitted (performed (run op web3 env account c) h))"
proof -
  obtain r subs where same: "\<And>g. g \<noteq> 0 \<Longrightarrow>
      \<exists>evs. run op (with_estimate g web3) env account c h = (r, h @ evs) \<and> submitted evs = subs"
    using run_with_estimate_result [of op web3 env account c h] by blast
  have "outcome (run op (with_estimate g web3) env account c) h = r \<and>
        submitted (performed (run op (with_estimate g web3) env account c) h) = subs"
    if "g \<noteq> 0" for g
  proof -
    from same [OF that] obtain evs where
      "run op (with_estimate g web3) env account c h = (r, h @ evs)" and "submitted evs = subs"
      by blast
    then show ?thesis
      by (simp add: performed_def outcome_def)
  qed
  from this [OF assms(1)] this [OF assms(2)]
  have "submitted (performed (run op (with_estimate g1 web3) env account c) h) =
           submitted (performed (run op (with_estimate g2 web3) env account c) h)"
    and "outcome (run op (with_estimate g1 web3) env account c) h =
           outcome (run op (with_estimate g2 web3) env account c) h"
    by simp_all
  moreover obtain r' evs where "performed (run op web3 env account c) h = evs"
    and "run_trace web3 env account c op r' evs"
    by (rule run_traceE)
  then have "list_all (\<lambda>(c, m, opts). gas opts = None)
      (submitted (performed (run op web3 env account c) h))"
    using run_trace_no_gas by blast
  ultimately show ?thesis
    by simp
qed


text \<open>
  The theorem for the estimates 21000 and 50000 on \<^verbatim>\<open>withdrawMargin\<close>.
\<close>

theorem gas_estimate_only_gates_witness:
  "(21000::nat) \<noteq> 0 \<and> (50000::nat) \<noteq> 0 \<and>
   submitted (performed (run WithdrawMargin (with_estimate 21000 (sample_web3 (sample_node 0 0)))
                sample_env sample_account sample_vault) []) =
   submitted (performed (run WithdrawMargin (with_estimate 50000 (sample_web3 (sample_node 0 0)))
                sample_env sample_account sample_vault) []) \<and>
   submitted (performed (run WithdrawMargin (with_estimate 21000 (sample_web3 (sample_node 0 0)))
                sample_env sample_account sample_vault) []) =
     [(sample_vault, MethodCall ''withdraw'' [Str ''1000000000000000000''],
       \<lparr>from_address = sample_address, nonce = ''41'', tx_type = Some ''0x02'', gas = None\<rparr>)]"
proof -
  have nonzero: "(21000::nat) \<noteq> 0" "(50000::nat) \<noteq> 0"
    by simp_all
  have "submitted (performed (run WithdrawMargin (with_estimate 21000 (sample_web3 (sample_node 0 0)))
                sample_env sample_account sample_vault) []) =
     [(sample_vault, MethodCall ''withdraw'' [Str ''1000000000000000000''],
       \<lparr>from_address = sample_address, nonce = ''41'', tx_type = Some ''0x02'', gas = None\<rparr>)]"
    by (simp add: withdrawMargin_def steps performed_def with_estimate_def sample_web3_def
        sample_node_def sample_account_def toWei_1 bigint_toString_small)
  with nonzero show ?thesis
    using gas_estimate_only_gates [OF nonzero, of WithdrawMargin "sample_web3 (sample_node 0 0)"
        sample_env sample_account sample_vault "[]"]
    by simp
qed

section \<open>The token address\<close>

lemma invocations_Nil [simp]: "invocations name [] = []"
  by (simp add: invocations_def)

lemma invocations_append [simp]:
  "invocations name (xs @ ys) = invocations name xs @ invocations name ys"
  by (simp add: invocations_def)

lemma invocations_Cons [simp]:
  "invocations name (Call c (MethodCall n args) r # es) =
     (if n = name then [(c, args)] else []) @ invocations name es"
  "invocations name (EstimateGas c (MethodCall n args) s r' # es) =
     (if n = name then [(c, args)] else []) @ invocations name es"
  "invocations name (Send c (MethodCall n args) opts r'' # es) =
     (if n = name then [(c, args)] else []) @ invocations name es"
  "invocations name (GetTransactionCount a r''' # es) = invocations name es"
  "invocations name (ConsoleLog x # es) = invocations name es"
  by (simp_all add: invocations_def)













end
